theory Spec2Isabelle
  imports Main "HOL-Library.Word"
begin

section \<open>Values shared by the whole package\<close>

text \<open>
  A Go \<open>rune\<close> is a 32-bit signed integer; the code only compares runes and stores them,
  so they are integers here (the Meta key codes are negative).
  A Go \<open>string\<close> is modelled by the sequence of its code points, which is what
  \<open>[]rune(s)\<close> yields; appending the one-byte string \<open>"\n"\<close> appends one code point, and
  \<open>len(s)\<close> (a byte count) is zero exactly when that sequence is empty.
\<close>

type_synonym rune = int
type_synonym gostring = "rune list"
type_synonym byte = "8 word"

text \<open>
  The values an \<open>error\<close> interface can hold in this package: the package variable
  \<open>ErrInterrupt\<close>, \<open>io.EOF\<close>, a pointer to an \<open>InterruptError\<close> with its \<open>Line\<close>, or any
  other error (identified by a number). A nil error is \<open>None\<close>.
\<close>

datatype error = ErrInterrupt | EOF | InterruptError "rune list" | OtherError nat

subsection \<open>readline.go: Result\<close>

record Result =
  Line :: gostring
  Error :: "error option"

definition CanContinue :: "Result \<Rightarrow> bool" where
  "CanContinue l = (length (Line l) \<noteq> 0 \<and> Error l = Some ErrInterrupt)"

definition CanBreak :: "Result \<Rightarrow> bool" where
  "CanBreak l = (\<not> CanContinue l \<and> Error l \<noteq> None)"

subsection \<open>readline.go: Config and Config.Init\<close>

text \<open>
  The listener hook is \<open>Listener.OnChange(line, pos, key)\<close>, returning
  \<open>(newLine, newPos, ok)\<close>; \<open>FuncListener\<close> and \<open>DumpListener\<close> only wrap such a function.
  The input filter is \<open>FuncFilterInputRune\<close>.
\<close>

type_synonym Listener = "rune list \<Rightarrow> int \<Rightarrow> rune \<Rightarrow> rune list \<times> int \<times> bool"

text \<open>
  Readers, writers and the function-valued options that this code only stores and tests
  against nil are handles. The package variables \<open>Stdin\<close>, \<open>Stdout\<close>, \<open>Stderr\<close> and the
  default functions are declared outside the given sources; each is a handle of its own.
\<close>

datatype io_Reader = pkg_Stdin | NewCancelableStdin io_Reader | OtherReader nat
datatype io_Writer = pkg_Stdout | pkg_Stderr | OtherWriter nat
datatype func = GetScreenWidth | DefaultIsTerminal | RawMode_Enter | RawMode_Exit
  | DefaultOnWidthChanged | OtherFunc nat

record Config =
  Prompt :: gostring
  Listener :: "Listener option"
  InterruptPrompt :: gostring
  EOFPrompt :: gostring
  FuncGetWidth :: "func option"
  Stdin :: "io_Reader option"
  Stdout :: "io_Writer option"
  Stderr :: "io_Writer option"
  EnableMask :: bool
  MaskRune :: rune
  UniqueEditLine :: bool
  FuncFilterInputRune :: "(rune \<Rightarrow> rune \<times> bool) option"
  FuncIsTerminal :: "func option"
  FuncMakeRaw :: "func option"
  FuncExitRaw :: "func option"
  FuncOnWidthChanged :: "func option"
  ForceUseInteractive :: bool
  inited :: bool

definition newline :: rune where
  "newline = 10"

text \<open>The string literals \<open>"^C"\<close> and \<open>"^D"\<close>.\<close>

definition caret_C :: gostring where
  "caret_C = [94, 67]"

definition caret_D :: gostring where
  "caret_D = [94, 68]"

definition or_default :: "'a option \<Rightarrow> 'a \<Rightarrow> 'a option" where
  "or_default v d = (if v = None then Some d else v)"

definition banner_default :: "gostring \<Rightarrow> gostring \<Rightarrow> gostring" where
  "banner_default p d = (if p = [] then d else if p = [newline] then [] else p)"

text \<open>\<open>Config.Init\<close>: the updated Config and the returned error (always nil).\<close>

definition Config_Init :: "Config \<Rightarrow> Config \<times> error option" where
  "Config_Init c =
    (if inited c then (c, None)
     else (c\<lparr> inited := True,
              Stdin := or_default (Stdin c) (NewCancelableStdin pkg_Stdin),
              Stdout := or_default (Stdout c) pkg_Stdout,
              Stderr := or_default (Stderr c) pkg_Stderr,
              InterruptPrompt := banner_default (InterruptPrompt c) caret_C,
              EOFPrompt := banner_default (EOFPrompt c) caret_D,
              FuncGetWidth := or_default (FuncGetWidth c) GetScreenWidth,
              FuncIsTerminal := or_default (FuncIsTerminal c) DefaultIsTerminal,
              FuncMakeRaw := or_default (FuncMakeRaw c) RawMode_Enter,
              FuncExitRaw := or_default (FuncExitRaw c) RawMode_Exit,
              FuncOnWidthChanged := or_default (FuncOnWidthChanged c) DefaultOnWidthChanged \<rparr>,
           None))"

text \<open>The Config literal of \<open>New\<close>: only the prompt is set.\<close>

definition New_Config :: "gostring \<Rightarrow> Config" where
  "New_Config p =
    \<lparr>Prompt = p, Listener = None, InterruptPrompt = [], EOFPrompt = [],
     FuncGetWidth = None, Stdin = None, Stdout = None, Stderr = None, EnableMask = False,
     MaskRune = 0, UniqueEditLine = False, FuncFilterInputRune = None, FuncIsTerminal = None,
     FuncMakeRaw = None, FuncExitRaw = None, FuncOnWidthChanged = None,
     ForceUseInteractive = False, inited = False\<rparr>"

section \<open>The session state\<close>

text \<open>
  What one call of the loop or of the read entry point does to the screen, the terminal
  and the collaborators, in the order the source does it.
\<close>

datatype effect =
    EBell | EKickRead | ESleepToResume | EClearScreen
  | EEnterRawMode | EExitRawMode
  | EErase | ERedraw
  | EBufWrite "rune list"
  | EOnChange "rune list" int rune
  | ETargetWrite io_Writer "byte list"

text \<open>A value sent on \<open>outchan\<close> (a completed line) or on \<open>errchan\<close> (an error).\<close>

datatype msg = OutChan "rune list" | ErrChan error

datatype panic = NilDereference

text \<open>
  The objects reachable from an Instance, flattened: the store of Config values with the
  four Config pointers (nil is \<open>None\<close>), the pointer that password mode saves, the next
  address that \<open>new\<close> hands out, the RuneBuffer of the Operation (content, cursor, prompt,
  mask), the two Terminal flags, and the effects so far.
\<close>

record Session =
  heap :: "nat \<Rightarrow> Config"
  i_Config :: "nat option"
  o_cfg :: "nat option"
  t_cfg :: "nat option"
  b_cfg :: "nat option"
  backupCfg :: "nat option"
  next_free :: nat
  content :: "rune list"
  cursor :: nat
  prompt :: gostring
  maskr :: rune
  rawmode :: bool
  isReading :: bool
  trace :: "effect list"

definition emit :: "effect \<Rightarrow> Session \<Rightarrow> Session" where
  "emit e s = s\<lparr>trace := trace s @ [e]\<rparr>"

section \<open>The collaborators of the loop\<close>

subsection \<open>Key codes\<close>

text \<open>
  Modelled from the spec: the key constants are declared outside the given sources. By the
  shortcut table (section 6) a Ctrl+letter key is the ASCII control code of its letter,
  Enter is Ctrl+M, Backspace is DEL, and the Meta combinations, which are no code points,
  are negative. The \<open>switch\<close> of the loop compiles only if its case constants differ.
\<close>

definition CharLineStart :: rune where "CharLineStart = 1"
definition CharBackward :: rune where "CharBackward = 2"
definition CharInterrupt :: rune where "CharInterrupt = 3"
definition CharDelete :: rune where "CharDelete = 4"
definition CharLineEnd :: rune where "CharLineEnd = 5"
definition CharForward :: rune where "CharForward = 6"
definition CharCtrlH :: rune where "CharCtrlH = 8"
definition CharTab :: rune where "CharTab = 9"
definition CharCtrlJ :: rune where "CharCtrlJ = 10"
definition CharKill :: rune where "CharKill = 11"
definition CharCtrlL :: rune where "CharCtrlL = 12"
definition CharEnter :: rune where "CharEnter = 13"
definition CharBckSearch :: rune where "CharBckSearch = 18"
definition CharFwdSearch :: rune where "CharFwdSearch = 19"
definition CharTranspose :: rune where "CharTranspose = 20"
definition CharCtrlU :: rune where "CharCtrlU = 21"
definition CharCtrlW :: rune where "CharCtrlW = 23"
definition CharCtrlZ :: rune where "CharCtrlZ = 26"
definition CharBackspace :: rune where "CharBackspace = 127"
definition MetaBackward :: rune where "MetaBackward = - 1"
definition MetaForward :: rune where "MetaForward = - 2"
definition MetaDelete :: rune where "MetaDelete = - 3"
definition MetaBackspace :: rune where "MetaBackspace = - 4"

subsection \<open>Terminal\<close>

text \<open>
  Modelled from the spec: the Terminal is the external transport (sections 1 and 2); of
  its operations the code calls the bell, the wake-up of the reader, suspend, and the
  raw-mode lifecycle, which sets and clears the "in raw mode" flag (section 3).
  \<open>IsReading\<close> reads a flag that the Terminal maintains.
\<close>

definition Bell :: "Session \<Rightarrow> Session" where
  "Bell s = emit EBell s"

definition KickRead :: "Session \<Rightarrow> Session" where
  "KickRead s = emit EKickRead s"

definition SleepToResume :: "Session \<Rightarrow> Session" where
  "SleepToResume s = emit ESleepToResume s"

definition EnterRawMode :: "Session \<Rightarrow> Session" where
  "EnterRawMode s = emit EEnterRawMode (s\<lparr>rawmode := True\<rparr>)"

definition ExitRawMode :: "Session \<Rightarrow> Session" where
  "ExitRawMode s = emit EExitRawMode (s\<lparr>rawmode := False\<rparr>)"

definition IsReading :: "Session \<Rightarrow> bool" where
  "IsReading s = isReading s"

definition ClearScreen :: "Session \<Rightarrow> Session" where
  "ClearScreen s = emit EClearScreen s"

subsection \<open>RuneBuffer\<close>

text \<open>
  Modelled from the spec: the RuneBuffer type and its methods are outside the given
  sources. Each method below follows its contract in sections 3 and 4.1: content is a
  sequence of code points, the cursor an index into it. The trace keeps the erase and the
  redraw of \<open>Clean\<close> and \<open>Refresh\<close> and the text handed to \<open>WriteRune\<close> and \<open>WriteString\<close>;
  the incremental re-rendering inside the editing methods is not recorded.
\<close>

definition Len :: "Session \<Rightarrow> nat" where
  "Len s = length (content s)"

definition Pos :: "Session \<Rightarrow> int" where
  "Pos s = int (cursor s)"

definition Clean :: "Session \<Rightarrow> Session" where
  "Clean s = emit EErase s"

definition print_line :: "Session \<Rightarrow> Session" where
  "print_line s = emit ERedraw s"

text \<open>
  \<open>Refresh(f)\<close>: erase the rendering, run the side effect, redraw. The side effect is a Go
  closure; \<open>v\<close> holds the variables it captures and assigns.
\<close>

definition Refresh :: "('v \<Rightarrow> Session \<Rightarrow> 'v \<times> Session) option \<Rightarrow> 'v \<Rightarrow> Session \<Rightarrow> 'v \<times> Session" where
  "Refresh f v s =
    (case f of
       None \<Rightarrow> (v, print_line (Clean s))
     | Some g \<Rightarrow> (case g v (Clean s) of (v', s') \<Rightarrow> (v', print_line s')))"

definition Refresh_nil :: "Session \<Rightarrow> Session" where
  "Refresh_nil s = snd (Refresh None () s)"

definition insert_at :: "nat \<Rightarrow> 'a list \<Rightarrow> 'a list \<Rightarrow> 'a list" where
  "insert_at i ys xs = take i xs @ ys @ drop i xs"

definition WriteString :: "gostring \<Rightarrow> Session \<Rightarrow> Session" where
  "WriteString str s =
    emit (EBufWrite str)
      (s\<lparr>content := insert_at (cursor s) str (content s), cursor := cursor s + length str\<rparr>)"

definition WriteRune :: "rune \<Rightarrow> Session \<Rightarrow> Session" where
  "WriteRune r s = WriteString [r] s"

definition Delete :: "Session \<Rightarrow> bool \<times> Session" where
  "Delete s =
    (if cursor s < length (content s)
     then (True, s\<lparr>content := take (cursor s) (content s) @ drop (Suc (cursor s)) (content s)\<rparr>)
     else (False, s))"

definition Backspace :: "Session \<Rightarrow> bool \<times> Session" where
  "Backspace s =
    (if cursor s = 0 then (False, s)
     else (True, s\<lparr>content := take (cursor s - 1) (content s) @ drop (cursor s) (content s),
                   cursor := cursor s - 1\<rparr>))"

definition MoveBackward :: "Session \<Rightarrow> Session" where
  "MoveBackward s = (if cursor s = 0 then s else s\<lparr>cursor := cursor s - 1\<rparr>)"

definition MoveForward :: "Session \<Rightarrow> Session" where
  "MoveForward s = (if cursor s < length (content s) then s\<lparr>cursor := cursor s + 1\<rparr> else s)"

definition MoveToLineStart :: "Session \<Rightarrow> Session" where
  "MoveToLineStart s = s\<lparr>cursor := 0\<rparr>"

definition MoveToLineEnd :: "Session \<Rightarrow> Session" where
  "MoveToLineEnd s = s\<lparr>cursor := length (content s)\<rparr>"

definition is_space :: "rune \<Rightarrow> bool" where
  "is_space c = (c = 32)"

text \<open>
  The start of the next word: past the rest of the run of non-space code points under the
  cursor, then past the spaces. The start of the previous word: back over the spaces
  before the cursor, then back over the run of non-space code points.
\<close>

definition next_word :: "rune list \<Rightarrow> nat \<Rightarrow> nat" where
  "next_word xs i =
    length xs - length (dropWhile is_space (dropWhile (\<lambda>c. \<not> is_space c) (drop i xs)))"

definition prev_word :: "rune list \<Rightarrow> nat \<Rightarrow> nat" where
  "prev_word xs i =
    length (dropWhile (\<lambda>c. \<not> is_space c) (dropWhile is_space (rev (take i xs))))"

definition MoveToNextWord :: "Session \<Rightarrow> Session" where
  "MoveToNextWord s = s\<lparr>cursor := next_word (content s) (cursor s)\<rparr>"

definition MoveToPrevWord :: "Session \<Rightarrow> Session" where
  "MoveToPrevWord s = s\<lparr>cursor := prev_word (content s) (cursor s)\<rparr>"

definition DeleteWord :: "Session \<Rightarrow> Session" where
  "DeleteWord s =
    s\<lparr>content := take (cursor s) (content s) @ drop (next_word (content s) (cursor s)) (content s)\<rparr>"

definition BackEscapeWord :: "Session \<Rightarrow> Session" where
  "BackEscapeWord s =
    s\<lparr>content := take (prev_word (content s) (cursor s)) (content s) @ drop (cursor s) (content s),
      cursor := prev_word (content s) (cursor s)\<rparr>"

definition Kill :: "Session \<Rightarrow> Session" where
  "Kill s = s\<lparr>content := take (cursor s) (content s)\<rparr>"

definition KillFront :: "Session \<Rightarrow> Session" where
  "KillFront s = s\<lparr>content := drop (cursor s) (content s), cursor := 0\<rparr>"

definition Transpose :: "Session \<Rightarrow> Session" where
  "Transpose s =
    (if 0 < cursor s \<and> cursor s < length (content s)
     then s\<lparr>content := (content s)[cursor s - 1 := content s ! cursor s,
                                    cursor s := content s ! (cursor s - 1)],
            cursor := cursor s + 1\<rparr>
     else s)"

definition Reset :: "Session \<Rightarrow> rune list \<times> Session" where
  "Reset s = (content s, s\<lparr>content := [], cursor := 0\<rparr>)"

definition Runes_of_buf :: "Session \<Rightarrow> rune list" where
  "Runes_of_buf s = content s"

definition clamp_idx :: "int \<Rightarrow> nat \<Rightarrow> nat" where
  "clamp_idx i n = (if i < 0 then 0 else if int n < i then n else nat i)"

definition SetWithIdx :: "int \<Rightarrow> rune list \<Rightarrow> Session \<Rightarrow> Session" where
  "SetWithIdx newPos newLine s =
    s\<lparr>content := newLine, cursor := clamp_idx newPos (length newLine)\<rparr>"

definition SetPrompt :: "gostring \<Rightarrow> Session \<Rightarrow> Session" where
  "SetPrompt p s = s\<lparr>prompt := p\<rparr>"

definition SetMask :: "rune \<Rightarrow> Session \<Rightarrow> Session" where
  "SetMask r s = s\<lparr>maskr := r\<rparr>"

definition RuneBuffer_SetConfig :: "nat option \<Rightarrow> Session \<Rightarrow> Session" where
  "RuneBuffer_SetConfig cfg s = s\<lparr>b_cfg := cfg\<rparr>"

text \<open>
  Modelled from the spec: \<open>Terminal.SetConfig\<close> is outside the given sources; replacing the
  configuration re-initializes it (section 6, ReplaceConfig) and the Terminal keeps the
  pointer.
\<close>

definition Terminal_SetConfig :: "nat option \<Rightarrow> Session \<Rightarrow> panic + Session" where
  "Terminal_SetConfig cfg s =
    (case cfg of
       None \<Rightarrow> Inl NilDereference
     | Some a \<Rightarrow> Inr (s\<lparr>heap := (heap s)(a := fst (Config_Init (heap s a))), t_cfg := cfg\<rparr>))"

section \<open>operation.go\<close>

text \<open>
  In \<open>ioloop\<close> and \<open>Runes\<close> the argument \<open>cfg\<close> is the Config that \<open>o.cfg\<close> points to.
  The slice expression \<open>xs[:n]\<close> keeps the first \<open>n\<close> elements; Go panics when \<open>n\<close> is
  negative, and the lemmas \<open>enter_bound\<close> and \<open>interrupt_bound\<close> show that the two bounds
  of the loop never are.
\<close>

definition slice_to :: "'a list \<Rightarrow> int \<Rightarrow> 'a list" where
  "slice_to xs n = take (nat n) xs"

definition Operation_Refresh :: "Session \<Rightarrow> Session" where
  "Operation_Refresh s = (if IsReading s then Refresh_nil s else s)"

text \<open>
  The \<open>switch\<close> of \<open>ioloop\<close>: the state after the case for key \<open>r\<close> and the value the
  case sends, if it sends one.
\<close>

definition dispatch :: "Config \<Rightarrow> rune \<Rightarrow> Session \<Rightarrow> Session \<times> msg option" where
  "dispatch cfg r s =
    (if r = CharTab then (Bell s, None)
     else if r = CharBckSearch then (Bell s, None)
     else if r = CharCtrlU then (KillFront s, None)
     else if r = CharFwdSearch then (Bell s, None)
     else if r = CharKill then (Kill s, None)
     else if r = MetaForward then (MoveToNextWord s, None)
     else if r = CharTranspose then (Transpose s, None)
     else if r = MetaBackward then (MoveToPrevWord s, None)
     else if r = MetaDelete then (DeleteWord s, None)
     else if r = CharLineStart then (MoveToLineStart s, None)
     else if r = CharLineEnd then (MoveToLineEnd s, None)
     else if r = CharBackspace \<or> r = CharCtrlH then
       (if Len s = 0 then (Bell s, None) else (snd (Backspace s), None))
     else if r = CharCtrlZ then (Operation_Refresh (SleepToResume (Clean s)), None)
     else if r = CharCtrlL then (Operation_Refresh (ClearScreen s), None)
     else if r = MetaBackspace \<or> r = CharCtrlW then (BackEscapeWord s, None)
     else if r = CharEnter \<or> r = CharCtrlJ then
       (let s1 = MoveToLineEnd s in
        if \<not> UniqueEditLine cfg
        then (case Reset (WriteRune newline s1) of
                (data, s2) \<Rightarrow> (s2, Some (OutChan (slice_to data (int (length data) - 1)))))
        else (case Reset (Clean s1) of
                (data, s2) \<Rightarrow> (s2, Some (OutChan data))))
     else if r = CharBackward then (MoveBackward s, None)
     else if r = CharForward then (MoveForward s, None)
     else if r = CharDelete then
       (if Len s > 0
        then (case Delete (KickRead s) of
                (ok, s1) \<Rightarrow> (if \<not> ok then Bell s1 else s1, None))
        else (let s1 = (if \<not> UniqueEditLine cfg
                        then WriteString (EOFPrompt cfg @ [newline]) s else s);
                  s2 = snd (Reset s1);
                  s3 = (if UniqueEditLine cfg then Clean s2 else s2)
              in (s3, Some (ErrChan EOF))))
     else if r = CharInterrupt then
       (let s1 = Refresh_nil (MoveToLineEnd s);
            hint = InterruptPrompt cfg @ [newline];
            s2 = (if \<not> UniqueEditLine cfg then WriteString hint s1 else s1)
        in case Reset s2 of
             (remain, s3) \<Rightarrow>
               (s3, Some (ErrChan (InterruptError
                  (if \<not> UniqueEditLine cfg
                   then slice_to remain (int (length remain) - int (length hint))
                   else remain)))))
     else (WriteRune r s, None))"

text \<open>The listener call that closes an iteration (lines 198 to 203).\<close>

definition notify :: "Config \<Rightarrow> rune \<Rightarrow> Session \<Rightarrow> Session" where
  "notify cfg r s =
    (case Listener cfg of
       None \<Rightarrow> s
     | Some l \<Rightarrow>
         (case l (Runes_of_buf s) (Pos s) r of
            (newLine, newPos, ok) \<Rightarrow>
              (let s1 = emit (EOnChange (Runes_of_buf s) (Pos s) r) s
               in if ok then SetWithIdx newPos newLine s1 else s1)))"

definition filter_rune :: "Config \<Rightarrow> rune \<Rightarrow> rune \<times> bool" where
  "filter_rune cfg r =
    (case FuncFilterInputRune cfg of None \<Rightarrow> (r, True) | Some f \<Rightarrow> f r)"

text \<open>
  One iteration of \<open>ioloop\<close> on the rune \<open>r0\<close> that \<open>ReadRune\<close> returned: the new state, the
  value sent on a channel if any, and whether the loop goes on (False is the \<open>break\<close>).
\<close>

definition ioloop_iter :: "Config \<Rightarrow> rune \<Rightarrow> Session \<Rightarrow> Session \<times> msg option \<times> bool" where
  "ioloop_iter cfg r0 s =
    (case filter_rune cfg r0 of
       (r, process) \<Rightarrow>
         if \<not> process then (Refresh_nil s, None, True)
         else if r = 0 \<and> Len s = 0 then (Clean s, Some (ErrChan EOF), False)
         else (let r' = (if r = 0 then CharEnter else r)
               in case dispatch cfg r' s of
                    (s1, m) \<Rightarrow> (notify cfg r' s1, m, True)))"

text \<open>
  The loop on the runes that the transport delivers, up to and including the first
  iteration that sends a value (a send waits for the reader of the channel) or breaks.
  Each iteration consumes one rune; when the runes run out the loop waits in \<open>ReadRune\<close>.
\<close>

fun ioloop :: "Config \<Rightarrow> rune list \<Rightarrow> Session \<Rightarrow> Session \<times> msg option" where
  "ioloop cfg [] s = (s, None)"
| "ioloop cfg (r # rs) s =
    (case ioloop_iter cfg r s of
       (s', Some m, go_on) \<Rightarrow> (s', Some m)
     | (s', None, go_on) \<Rightarrow> (if go_on then ioloop cfg rs s' else (s', None)))"

text \<open>
  \<open>Runes\<close>. The prologue is lines 221 to 229; the listener's return values are dropped
  there. \<open>Runes_select\<close> is the \<open>select\<close>. The argument \<open>env\<close> is what the loop does while
  \<open>Runes\<close> waits, ending with the value it sends; when nothing is sent \<open>Runes\<close> does not
  return (\<open>None\<close>). The deferred \<open>ExitRawMode\<close> runs on return.
\<close>

definition Runes_enter :: "Config \<Rightarrow> Session \<Rightarrow> Session" where
  "Runes_enter cfg s =
    (let s1 = EnterRawMode s;
         s2 = (case Listener cfg of None \<Rightarrow> s1 | Some l \<Rightarrow> emit (EOnChange [] 0 0) s1)
     in KickRead (Refresh_nil s2))"

definition Runes_select :: "msg \<Rightarrow> rune list \<times> error option" where
  "Runes_select m =
    (case m of
       OutChan r \<Rightarrow> (r, None)
     | ErrChan err \<Rightarrow> (case err of InterruptError l \<Rightarrow> (l, Some ErrInterrupt) | _ \<Rightarrow> ([], Some err)))"

definition Runes :: "Config \<Rightarrow> (Session \<Rightarrow> Session \<times> msg option) \<Rightarrow> Session
    \<Rightarrow> (Session \<times> rune list \<times> error option) option" where
  "Runes cfg env s =
    (case env (Runes_enter cfg s) of
       (s', None) \<Rightarrow> None
     | (s', Some m) \<Rightarrow> Some (ExitRawMode s', Runes_select m))"

text \<open>
  \<open>string(r)\<close> on a rune slice writes each rune as a code point and puts U+FFFD in the place
  of a rune that is none (negative, a surrogate, or above U+10FFFF). \<open>[]byte(s)\<close> gives
  the bytes of the string, which for these strings is the UTF-8 encoding of the code
  points.
\<close>

definition valid_rune :: "rune \<Rightarrow> bool" where
  "valid_rune r = ((0 \<le> r \<and> r < 55296) \<or> (57343 < r \<and> r \<le> 1114111))"

definition string_of_runes :: "rune list \<Rightarrow> gostring" where
  "string_of_runes rs = map (\<lambda>r. if valid_rune r then r else 65533) rs"

definition utf8_encode :: "rune \<Rightarrow> byte list" where
  "utf8_encode c =
    (if c < 128 then [word_of_int c]
     else if c < 2048 then [word_of_int (192 + c div 64), word_of_int (128 + c mod 64)]
     else if c < 65536 then
       [word_of_int (224 + c div 4096), word_of_int (128 + c div 64 mod 64),
        word_of_int (128 + c mod 64)]
     else
       [word_of_int (240 + c div 262144), word_of_int (128 + c div 4096 mod 64),
        word_of_int (128 + c div 64 mod 64), word_of_int (128 + c mod 64)])"

definition bytes_of_string :: "gostring \<Rightarrow> byte list" where
  "bytes_of_string str = concat (map utf8_encode str)"

definition String :: "Config \<Rightarrow> (Session \<Rightarrow> Session \<times> msg option) \<Rightarrow> Session
    \<Rightarrow> (Session \<times> gostring \<times> error option) option" where
  "String cfg env s =
    (case Runes cfg env s of
       None \<Rightarrow> None
     | Some (s', r, err) \<Rightarrow> Some (s', string_of_runes r, err))"

definition Slice :: "Config \<Rightarrow> (Session \<Rightarrow> Session \<times> msg option) \<Rightarrow> Session
    \<Rightarrow> (Session \<times> byte list \<times> error option) option" where
  "Slice cfg env s =
    (case Runes cfg env s of
       None \<Rightarrow> None
     | Some (s', r, err) \<Rightarrow>
         if err \<noteq> None then Some (s', [], err)
         else Some (s', bytes_of_string (string_of_runes r), None))"

text \<open>
  \<open>wrapWriter.Write\<close>. \<open>W\<close> gives what the \<open>Write\<close> of an underlying writer returns;
  calling it is the effect \<open>ETargetWrite\<close>. A nil target panics.
\<close>

definition target_Write :: "(io_Writer \<Rightarrow> byte list \<Rightarrow> int \<times> error option) \<Rightarrow> io_Writer
    \<Rightarrow> byte list \<Rightarrow> Session \<Rightarrow> (int \<times> error option) \<times> Session" where
  "target_Write W w b s = (W w b, emit (ETargetWrite w b) s)"

definition wrapWriter_Write :: "(io_Writer \<Rightarrow> byte list \<Rightarrow> int \<times> error option)
    \<Rightarrow> io_Writer option \<Rightarrow> byte list \<Rightarrow> Session \<Rightarrow> panic + ((int \<times> error option) \<times> Session)" where
  "wrapWriter_Write W target b s =
    (case target of
       None \<Rightarrow> Inl NilDereference
     | Some w \<Rightarrow>
         if \<not> IsReading s then Inr (target_Write W w b s)
         else Inr (Refresh (Some (\<lambda>v. target_Write W w b)) (0, None) s))"

definition Operation_Stdout :: "Config \<Rightarrow> io_Writer option" where
  "Operation_Stdout cfg = Stdout cfg"

definition Operation_Stderr :: "Config \<Rightarrow> io_Writer option" where
  "Operation_Stderr cfg = Stderr cfg"

text \<open>\<open>Instance.Write\<close> writes through \<open>i.Stdout()\<close>, which is \<open>i.Operation.Stdout()\<close>.\<close>

definition Instance_Write :: "(io_Writer \<Rightarrow> byte list \<Rightarrow> int \<times> error option) \<Rightarrow> Config
    \<Rightarrow> byte list \<Rightarrow> Session \<Rightarrow> panic + ((int \<times> error option) \<times> Session)" where
  "Instance_Write W cfg b s = wrapWriter_Write W (Operation_Stdout cfg) b s"

text \<open>
  \<open>Operation.SetConfig\<close> and \<open>Instance.SetConfig\<close> compare pointers; \<open>cfg.Init()\<close> on a nil
  pointer panics. The result of \<open>Operation.SetConfig\<close> is the state, the returned pointer
  and the returned error.
\<close>

definition Operation_SetConfig :: "nat option \<Rightarrow> Session
    \<Rightarrow> panic + (Session \<times> nat option \<times> error option)" where
  "Operation_SetConfig cfg s =
    (if o_cfg s = cfg then Inr (s, o_cfg s, None)
     else case cfg of
       None \<Rightarrow> Inl NilDereference
     | Some a \<Rightarrow>
         (case Config_Init (heap s a) of
            (c', err) \<Rightarrow>
              (let s1 = s\<lparr>heap := (heap s)(a := c')\<rparr>
               in if err \<noteq> None then Inr (s1, o_cfg s1, err)
                  else Inr (RuneBuffer_SetConfig cfg
                              (SetMask (MaskRune c') (SetPrompt (Prompt c') (s1\<lparr>o_cfg := cfg\<rparr>))),
                            o_cfg s1, None))))"

definition Instance_SetConfig :: "nat option \<Rightarrow> Session \<Rightarrow> panic + (Session \<times> nat option)" where
  "Instance_SetConfig cfg s =
    (if i_Config s = cfg then Inr (s, cfg)
     else case Operation_SetConfig cfg (s\<lparr>i_Config := cfg\<rparr>) of
       Inl p \<Rightarrow> Inl p
     | Inr (s1, old_op, err) \<Rightarrow>
         (case Terminal_SetConfig cfg s1 of
            Inl p \<Rightarrow> Inl p
          | Inr s2 \<Rightarrow> Inr (s2, i_Config s)))"

subsection \<open>Password mode\<close>

text \<open>
  Modelled from the spec: the type \<open>opPassword\<close> is outside the given sources. By section
  4.5 password mode lays a temporary configuration with masked rendering over the same
  loop and buffer: entering swaps it in through the operation that applies a
  configuration and keeps the prior pointer, leaving swaps the prior one back.
  \<open>PasswordConfig\<close> allocates the temporary Config.
\<close>

definition PasswordConfig :: "Session \<Rightarrow> Session \<times> nat" where
  "PasswordConfig s =
    (s\<lparr>heap := (heap s)(next_free s := (New_Config [])\<lparr>EnableMask := True\<rparr>),
       next_free := Suc (next_free s)\<rparr>,
     next_free s)"

definition EnterPasswordMode :: "nat option \<Rightarrow> Session \<Rightarrow> panic + (Session \<times> error option)" where
  "EnterPasswordMode cfg s =
    (case Operation_SetConfig cfg s of
       Inl p \<Rightarrow> Inl p
     | Inr (s', old, err) \<Rightarrow> Inr (s'\<lparr>backupCfg := old\<rparr>, err))"

definition ExitPasswordMode :: "Session \<Rightarrow> panic + Session" where
  "ExitPasswordMode s =
    (case Operation_SetConfig (backupCfg s) s of
       Inl p \<Rightarrow> Inl p
     | Inr (s', old, err) \<Rightarrow> Inr (s'\<lparr>backupCfg := None\<rparr>))"

text \<open>
  The password functions of operation.go (lines 241 to 262) and the read functions of
  readline.go. A result \<open>Inl\<close> is a panic, \<open>Inr None\<close> a call that does not return. The
  deferred \<open>ExitPasswordMode\<close> runs after \<open>Slice\<close> has returned, and so after the deferred
  \<open>ExitRawMode\<close> of \<open>Runes\<close>.
\<close>

definition GenPasswordConfig :: "Session \<Rightarrow> Session \<times> nat" where
  "GenPasswordConfig s = PasswordConfig s"

definition PasswordWithConfig :: "nat option \<Rightarrow> (Session \<Rightarrow> Session \<times> msg option) \<Rightarrow> Session
    \<Rightarrow> panic + (Session \<times> byte list \<times> error option) option" where
  "PasswordWithConfig cfg env s =
    (case EnterPasswordMode cfg s of
       Inl p \<Rightarrow> Inl p
     | Inr (s1, err) \<Rightarrow>
         if err \<noteq> None then Inr (Some (s1, [], err))
         else (case o_cfg s1 of
                 None \<Rightarrow> Inl NilDereference
               | Some a \<Rightarrow>
                   (case Slice (heap s1 a) env s1 of
                      None \<Rightarrow> Inr None
                    | Some (s2, b, e) \<Rightarrow>
                        (case ExitPasswordMode s2 of
                           Inl p \<Rightarrow> Inl p
                         | Inr s3 \<Rightarrow> Inr (Some (s3, b, e))))))"

definition PasswordEx :: "gostring \<Rightarrow> Listener option \<Rightarrow> (Session \<Rightarrow> Session \<times> msg option)
    \<Rightarrow> Session \<Rightarrow> panic + (Session \<times> byte list \<times> error option) option" where
  "PasswordEx p l env s =
    (case GenPasswordConfig s of
       (s1, a) \<Rightarrow>
         PasswordWithConfig (Some a) env
           (s1\<lparr>heap := (heap s1)(a := (heap s1 a)\<lparr>Prompt := p, Listener := l\<rparr>)\<rparr>))"

definition Password :: "gostring \<Rightarrow> (Session \<Rightarrow> Session \<times> msg option) \<Rightarrow> Session
    \<Rightarrow> panic + (Session \<times> byte list \<times> error option) option" where
  "Password p env s = PasswordEx p None env s"

definition Instance_Readline :: "Config \<Rightarrow> (Session \<Rightarrow> Session \<times> msg option) \<Rightarrow> Session
    \<Rightarrow> (Session \<times> gostring \<times> error option) option" where
  "Instance_Readline cfg env s = String cfg env s"

definition Instance_ReadSlice :: "Config \<Rightarrow> (Session \<Rightarrow> Session \<times> msg option) \<Rightarrow> Session
    \<Rightarrow> (Session \<times> byte list \<times> error option) option" where
  "Instance_ReadSlice cfg env s = Slice cfg env s"

definition Instance_ReadPassword :: "gostring \<Rightarrow> (Session \<Rightarrow> Session \<times> msg option) \<Rightarrow> Session
    \<Rightarrow> panic + (Session \<times> byte list \<times> error option) option" where
  "Instance_ReadPassword p env s = Password p env s"

definition Instance_ReadPasswordEx :: "gostring \<Rightarrow> Listener option
    \<Rightarrow> (Session \<Rightarrow> Session \<times> msg option) \<Rightarrow> Session
    \<Rightarrow> panic + (Session \<times> byte list \<times> error option) option" where
  "Instance_ReadPasswordEx p l env s = PasswordEx p l env s"

definition Instance_ReadPasswordWithConfig :: "nat option
    \<Rightarrow> (Session \<Rightarrow> Session \<times> msg option) \<Rightarrow> Session
    \<Rightarrow> panic + (Session \<times> byte list \<times> error option) option" where
  "Instance_ReadPasswordWithConfig cfg env s = PasswordWithConfig cfg env s"

section \<open>Keys that are typed text, and a session to run\<close>

text \<open>
  The case constants of the \<open>switch\<close>. A rune that is none of them and not zero reaches
  the \<open>default\<close> case.
\<close>

definition special_keys :: "rune list" where
  "special_keys =
    [CharTab, CharBckSearch, CharCtrlU, CharFwdSearch, CharKill, MetaForward, CharTranspose,
     MetaBackward, MetaDelete, CharLineStart, CharLineEnd, CharBackspace, CharCtrlH,
     CharCtrlZ, CharCtrlL, MetaBackspace, CharCtrlW, CharEnter, CharCtrlJ, CharBackward,
     CharForward, CharDelete, CharInterrupt]"

definition plain_key :: "rune \<Rightarrow> bool" where
  "plain_key r = (r \<noteq> 0 \<and> r \<notin> set special_keys)"

text \<open>
  A session as \<open>New("> ")\<close> leaves it: one initialized Config at address 1, an empty
  buffer, the terminal not in raw mode.
\<close>

definition example_cfg :: Config where
  "example_cfg = fst (Config_Init (New_Config [62, 32]))"

definition example_session :: Session where
  "example_session =
    \<lparr>heap = (\<lambda>a. example_cfg), i_Config = Some 1, o_cfg = Some 1, t_cfg = Some 1,
     b_cfg = Some 1, backupCfg = None, next_free = 2, content = [], cursor = 0,
     prompt = [62, 32], maskr = 0,
     rawmode = False, isReading = False, trace = []\<rparr>"

text \<open>
  A listener that accepts every call and sets the line to \<open>x\<close> with the cursor after it,
  and the example configuration with that listener.
\<close>

definition example_listener :: Listener where
  "example_listener line pos key = ([120], 1, True)"

definition listener_cfg :: Config where
  "listener_cfg = example_cfg\<lparr>Listener := Some example_listener\<rparr>"

text \<open>The Config of \<open>New\<close> with both banner options set to \<open>"\n"\<close>.\<close>

definition newline_banner_Config :: Config where
  "newline_banner_Config = (New_Config [62, 32])\<lparr>InterruptPrompt := [10], EOFPrompt := [10]\<rparr>"

text \<open>An underlying writer that accepts every byte on Stdout and fails elsewhere.\<close>

definition example_W :: "io_Writer \<Rightarrow> byte list \<Rightarrow> int \<times> error option" where
  "example_W w b = (if w = pkg_Stdout then (int (length b), None) else (0, Some (OtherError 1)))"

section \<open>Lemmas on the model\<close>

lemmas key_defs =
  CharLineStart_def CharBackward_def CharInterrupt_def CharDelete_def CharLineEnd_def
  CharForward_def CharCtrlH_def CharTab_def CharCtrlJ_def CharKill_def CharCtrlL_def
  CharEnter_def CharBckSearch_def CharFwdSearch_def CharTranspose_def CharCtrlU_def
  CharCtrlW_def CharCtrlZ_def CharBackspace_def MetaBackward_def MetaForward_def
  MetaDelete_def MetaBackspace_def

lemmas buf_defs =
  Reset_def WriteRune_def WriteString_def Refresh_nil_def Refresh_def MoveToLineEnd_def
  Clean_def print_line_def emit_def insert_at_def slice_to_def Len_def Delete_def
  KickRead_def Bell_def

text \<open>The two slice bounds of the loop are never negative.\<close>

lemma interrupt_bound:
  "0 \<le> int (length (fst (Reset (WriteString hint (Refresh_nil (MoveToLineEnd s))))))
        - int (length hint)"
  by (simp add: buf_defs)

lemma enter_bound:
  "0 \<le> int (length (fst (Reset (WriteRune newline (MoveToLineEnd s))))) - 1"
  by (simp add: buf_defs)

lemma dispatch_plain: "plain_key r \<Longrightarrow> dispatch cfg r s = (WriteRune r s, None)"
  by (simp add: plain_key_def special_keys_def dispatch_def)

lemma dispatch_interrupt:
  "dispatch cfg CharInterrupt s =
    ((s\<lparr>content := [], cursor := 0,
        trace := trace s @ [EErase, ERedraw] @
          (if UniqueEditLine cfg then [] else [EBufWrite (InterruptPrompt cfg @ [newline])])\<rparr>),
     Some (ErrChan (InterruptError (content s))))"
  by (simp add: dispatch_def key_defs buf_defs)

lemma type_keys_content:
  "cursor s = length (content s) \<Longrightarrow>
   content (fold WriteRune ks s) = content s @ ks \<and>
   cursor (fold WriteRune ks s) = length (content s @ ks)"
  by (induction ks arbitrary: s) (simp_all add: WriteRune_def WriteString_def emit_def insert_at_def)

lemma ioloop_iter_plain:
  "Listener cfg = None \<Longrightarrow> FuncFilterInputRune cfg = None \<Longrightarrow> plain_key r \<Longrightarrow>
   ioloop_iter cfg r s = (WriteRune r s, None, True)"
  by (simp add: ioloop_iter_def filter_rune_def dispatch_plain notify_def plain_key_def)

lemma ioloop_typed:
  "Listener cfg = None \<Longrightarrow> FuncFilterInputRune cfg = None \<Longrightarrow> list_all plain_key ks \<Longrightarrow>
   ioloop cfg (ks @ rest) s = ioloop cfg rest (fold WriteRune ks s)"
  by (induction ks arbitrary: s) (simp_all add: ioloop_iter_plain)

lemma Runes_enter_buf:
  "content (Runes_enter cfg s) = content s \<and> cursor (Runes_enter cfg s) = cursor s"
  by (simp add: Runes_enter_def EnterRawMode_def buf_defs Let_def split: option.split)

lemma ioloop_iter_key:
  "filter_rune cfg r0 = (r, True) \<Longrightarrow> r \<noteq> 0 \<Longrightarrow>
   ioloop_iter cfg r0 s = (notify cfg r (fst (dispatch cfg r s)), snd (dispatch cfg r s), True)"
  by (simp add: ioloop_iter_def split: prod.split)

lemma notify_none: "Listener cfg = None \<Longrightarrow> notify cfg r s = s"
  by (simp add: notify_def)

lemma filter_none: "FuncFilterInputRune cfg = None \<Longrightarrow> filter_rune cfg r = (r, True)"
  by (simp add: filter_rune_def)

lemma example_cfg_simps:
  "Listener example_cfg = None" "FuncFilterInputRune example_cfg = None"
  "UniqueEditLine example_cfg = False" "InterruptPrompt example_cfg = [94, 67]"
  "EOFPrompt example_cfg = [94, 68]"
  by (simp_all add: example_cfg_def New_Config_def Config_Init_def banner_default_def
      caret_C_def caret_D_def)

lemma example_session_simps:
  "content example_session = []" "cursor example_session = 0" "trace example_session = []"
  "rawmode example_session = False" "isReading example_session = False"
  by (simp_all add: example_session_def)

lemma dispatch_delete_empty:
  "Len s = 0 \<Longrightarrow>
   dispatch cfg CharDelete s =
     (s\<lparr>content := [], cursor := 0,
        trace := trace s @ (if UniqueEditLine cfg then [EErase]
                            else [EBufWrite (EOFPrompt cfg @ [newline])])\<rparr>,
      Some (ErrChan EOF))"
  by (simp add: dispatch_def key_defs buf_defs)

lemma dispatch_delete_inside:
  "cursor s < length (content s) \<Longrightarrow>
   dispatch cfg CharDelete s =
     (s\<lparr>content := take (cursor s) (content s) @ drop (Suc (cursor s)) (content s),
        trace := trace s @ [EKickRead]\<rparr>, None)"
  by (cases "content s") (simp_all add: dispatch_def key_defs buf_defs)

lemma dispatch_delete_at_end:
  "content s \<noteq> [] \<Longrightarrow> length (content s) \<le> cursor s \<Longrightarrow>
   dispatch cfg CharDelete s = (s\<lparr>trace := trace s @ [EKickRead, EBell]\<rparr>, None)"
  by (simp add: dispatch_def key_defs buf_defs)

lemma dispatch_enter:
  "dispatch cfg CharEnter s =
     (s\<lparr>content := [], cursor := 0,
        trace := trace s @ (if UniqueEditLine cfg then [EErase] else [EBufWrite [newline]])\<rparr>,
      Some (OutChan (content s)))"
  by (simp add: dispatch_def key_defs buf_defs)

lemma dispatch_ctrl_j:
  "dispatch cfg CharCtrlJ s =
     (s\<lparr>content := [], cursor := 0,
        trace := trace s @ (if UniqueEditLine cfg then [EErase] else [EBufWrite [newline]])\<rparr>,
      Some (OutChan (content s)))"
  by (simp add: dispatch_def key_defs buf_defs)

lemma enter_appends:
  "content (WriteRune newline (MoveToLineEnd s)) = content s @ [newline]"
  by (simp add: buf_defs)

lemma ioloop_iter_eof_empty:
  "filter_rune cfg r0 = (0, True) \<Longrightarrow> Len s = 0 \<Longrightarrow>
   ioloop_iter cfg r0 s = (s\<lparr>trace := trace s @ [EErase]\<rparr>, Some (ErrChan EOF), False)"
  by (simp add: ioloop_iter_def Clean_def emit_def)

lemma ioloop_iter_eof_flush:
  "filter_rune cfg r0 = (0, True) \<Longrightarrow> Len s \<noteq> 0 \<Longrightarrow>
   ioloop_iter cfg r0 s =
     (notify cfg CharEnter (fst (dispatch cfg CharEnter s)), Some (OutChan (content s)), True)"
  by (simp add: ioloop_iter_def dispatch_enter)

lemma ioloop_iter_enter:
  "filter_rune cfg r1 = (CharEnter, True) \<Longrightarrow>
   ioloop_iter cfg r1 s =
     (notify cfg CharEnter (fst (dispatch cfg CharEnter s)), Some (OutChan (content s)), True)"
proof -
  assume a: "filter_rune cfg r1 = (CharEnter, True)"
  have nz: "CharEnter \<noteq> 0" by (simp add: CharEnter_def)
  show ?thesis using a nz by (simp add: ioloop_iter_key dispatch_enter)
qed

lemma listener_cfg_simps:
  "Listener listener_cfg = Some example_listener" "FuncFilterInputRune listener_cfg = None"
  "UniqueEditLine listener_cfg = False" "InterruptPrompt listener_cfg = [94, 67]"
  "EOFPrompt listener_cfg = [94, 68]"
  by (simp_all add: listener_cfg_def example_cfg_simps)

lemma Init_banners:
  "\<not> inited c \<Longrightarrow>
   InterruptPrompt (fst (Config_Init c)) = banner_default (InterruptPrompt c) caret_C
   \<and> EOFPrompt (fst (Config_Init c)) = banner_default (EOFPrompt c) caret_D
   \<and> UniqueEditLine (fst (Config_Init c)) = UniqueEditLine c"
  by (simp add: Config_Init_def)

lemma notify_some:
  "Listener cfg = Some l \<Longrightarrow>
   notify cfg r s =
     (case l (content s) (int (cursor s)) r of
        (newLine, newPos, ok) \<Rightarrow>
          if ok
          then s\<lparr>content := newLine, cursor := clamp_idx newPos (length newLine),
                 trace := trace s @ [EOnChange (content s) (int (cursor s)) r]\<rparr>
          else s\<lparr>trace := trace s @ [EOnChange (content s) (int (cursor s)) r]\<rparr>)"
  by (simp add: notify_def Runes_of_buf_def Pos_def SetWithIdx_def emit_def split: prod.split)

lemma Runes_enter_some:
  "Listener cfg = Some l \<Longrightarrow>
   Runes_enter cfg s =
     s\<lparr>rawmode := True,
       trace := trace s @ [EEnterRawMode, EOnChange [] 0 0, EErase, ERedraw, EKickRead]\<rparr>"
  by (simp add: Runes_enter_def EnterRawMode_def KickRead_def buf_defs)

lemma Runes_enter_none:
  "Listener cfg = None \<Longrightarrow>
   Runes_enter cfg s =
     s\<lparr>rawmode := True, trace := trace s @ [EEnterRawMode, EErase, ERedraw, EKickRead]\<rparr>"
  by (simp add: Runes_enter_def EnterRawMode_def KickRead_def buf_defs)

lemma ioloop_iter_dispatched:
  "filter_rune cfg r0 = (r, True) \<Longrightarrow> \<not> (r = 0 \<and> Len s = 0) \<Longrightarrow>
   ioloop_iter cfg r0 s =
     (notify cfg (if r = 0 then CharEnter else r)
        (fst (dispatch cfg (if r = 0 then CharEnter else r) s)),
      snd (dispatch cfg (if r = 0 then CharEnter else r) s), True)"
  by (simp add: ioloop_iter_def split: prod.split)

lemma wrapWriter_reading:
  "IsReading s \<Longrightarrow>
   wrapWriter_Write W (Some w) b s =
     Inr (W w b, s\<lparr>trace := trace s @ [EErase, ETargetWrite w b, ERedraw]\<rparr>)"
  by (simp add: wrapWriter_Write_def Refresh_def target_Write_def Clean_def print_line_def emit_def)

lemma wrapWriter_idle:
  "\<not> IsReading s \<Longrightarrow>
   wrapWriter_Write W (Some w) b s = Inr (W w b, s\<lparr>trace := trace s @ [ETargetWrite w b]\<rparr>)"
  by (simp add: wrapWriter_Write_def target_Write_def emit_def)

lemma Runes_enter_raw:
  "rawmode (Runes_enter cfg s)
   \<and> take (Suc (length (trace s))) (trace (Runes_enter cfg s)) = trace s @ [EEnterRawMode]"
  by (cases "Listener cfg") (auto simp add: Runes_enter_none Runes_enter_some)

lemma ExitRawMode_raw:
  "\<not> rawmode (ExitRawMode s) \<and> last (trace (ExitRawMode s)) = EExitRawMode"
  by (simp add: ExitRawMode_def emit_def)

lemma Runes_returns:
  "env (Runes_enter cfg s) = (s1, Some m) \<Longrightarrow>
   Runes cfg env s = Some (ExitRawMode s1, Runes_select m)"
  by (simp add: Runes_def)

lemma Runes_SomeD:
  "Runes cfg env s = Some (s', res) \<Longrightarrow>
   \<exists>s1 m. env (Runes_enter cfg s) = (s1, Some m) \<and> s' = ExitRawMode s1 \<and> res = Runes_select m"
  by (auto simp add: Runes_def split: prod.splits option.splits)

lemma Config_Init_inited: "inited c \<Longrightarrow> Config_Init c = (c, None)"
  by (simp add: Config_Init_def)

lemma Config_Init_sets_inited: "inited (fst (Config_Init c))"
  by (simp add: Config_Init_def)

lemma Config_Init_no_error: "snd (Config_Init c) = None"
  by (simp add: Config_Init_def)

lemma Len_Runes_enter: "Len (Runes_enter cfg s) = Len s"
  by (simp add: Len_def Runes_enter_buf)

lemma ioloop_single_send:
  "ioloop_iter cfg r0 s = (s', Some m, go_on) \<Longrightarrow> ioloop cfg [r0] s = (s', Some m)"
  by simp

lemma ioloop_single_none:
  "ioloop_iter cfg r0 s = (s', None, go_on) \<Longrightarrow> ioloop cfg [r0] s = (s', None)"
  by simp

lemma ioloop_iter_delete_empty:
  "filter_rune cfg r0 = (CharDelete, True) \<Longrightarrow> Len s = 0 \<Longrightarrow>
   ioloop_iter cfg r0 s =
     (notify cfg CharDelete
        (s\<lparr>content := [], cursor := 0,
           trace := trace s @ (if UniqueEditLine cfg then [EErase]
                               else [EBufWrite (EOFPrompt cfg @ [newline])])\<rparr>),
      Some (ErrChan EOF), True)"
proof -
  assume a: "filter_rune cfg r0 = (CharDelete, True)" and l: "Len s = 0"
  have nz: "CharDelete \<noteq> 0" by (simp add: CharDelete_def)
  show ?thesis
    using ioloop_iter_key [OF a nz, of s] l by (simp add: dispatch_delete_empty)
qed

lemma ioloop_iter_delete_inside:
  "filter_rune cfg r0 = (CharDelete, True) \<Longrightarrow> cursor s < Len s \<Longrightarrow>
   ioloop_iter cfg r0 s =
     (notify cfg CharDelete
        (s\<lparr>content := take (cursor s) (content s) @ drop (Suc (cursor s)) (content s),
           trace := trace s @ [EKickRead]\<rparr>),
      None, True)"
proof -
  assume a: "filter_rune cfg r0 = (CharDelete, True)" and l: "cursor s < Len s"
  have nz: "CharDelete \<noteq> 0" by (simp add: CharDelete_def)
  show ?thesis
    using ioloop_iter_key [OF a nz, of s] l by (simp add: dispatch_delete_inside Len_def)
qed

lemma ioloop_iter_delete_at_end:
  "filter_rune cfg r0 = (CharDelete, True) \<Longrightarrow> Len s \<noteq> 0 \<Longrightarrow> Len s \<le> cursor s \<Longrightarrow>
   ioloop_iter cfg r0 s =
     (notify cfg CharDelete (s\<lparr>trace := trace s @ [EKickRead, EBell]\<rparr>), None, True)"
proof -
  assume a: "filter_rune cfg r0 = (CharDelete, True)" and l: "Len s \<noteq> 0" "Len s \<le> cursor s"
  have nz: "CharDelete \<noteq> 0" by (simp add: CharDelete_def)
  show ?thesis
    using ioloop_iter_key [OF a nz, of s] l by (simp add: dispatch_delete_at_end Len_def)
qed

lemma ioloop_iter_delete_nonempty:
  "filter_rune cfg r0 = (CharDelete, True) \<Longrightarrow> Len s \<noteq> 0 \<Longrightarrow>
   fst (snd (ioloop_iter cfg r0 s)) = None \<and> snd (snd (ioloop_iter cfg r0 s))"
  by (cases "cursor s < Len s")
     (simp_all add: ioloop_iter_delete_inside ioloop_iter_delete_at_end)

lemma ioloop_iter_ctrl_j:
  "filter_rune cfg r1 = (CharCtrlJ, True) \<Longrightarrow>
   ioloop_iter cfg r1 s =
     (notify cfg CharCtrlJ (fst (dispatch cfg CharCtrlJ s)), Some (OutChan (content s)), True)"
proof -
  assume a: "filter_rune cfg r1 = (CharCtrlJ, True)"
  have nz: "CharCtrlJ \<noteq> 0" by (simp add: CharCtrlJ_def)
  show ?thesis using a nz by (simp add: ioloop_iter_key dispatch_ctrl_j)
qed

lemma Runes_of_send:
  "snd (env (Runes_enter cfg s)) = Some m \<Longrightarrow>
   \<exists>s'. Runes cfg env s = Some (s', Runes_select m)"
  by (cases "env (Runes_enter cfg s)") (simp add: Runes_def)

lemma end_of_stream_iterations:
  "(filter_rune cfg r0 = (0, True) \<and> Len s = 0 \<longrightarrow>
      ioloop_iter cfg r0 s = (s\<lparr>trace := trace s @ [EErase]\<rparr>, Some (ErrChan EOF), False))
   \<and> (filter_rune cfg r0 = (0, True) \<and> Len s \<noteq> 0 \<longrightarrow>
        fst (snd (ioloop_iter cfg r0 s)) = Some (OutChan (content s))
        \<and> snd (snd (ioloop_iter cfg r0 s)))
   \<and> (filter_rune cfg r0 = (0, True) \<and> Len s \<noteq> 0 \<and> filter_rune cfg r1 = (CharEnter, True) \<longrightarrow>
        ioloop_iter cfg r0 s = ioloop_iter cfg r1 s)
   \<and> (filter_rune cfg r0 = (0, True) \<and> Len s \<noteq> 0 \<and> Listener cfg = None \<longrightarrow>
        Len (fst (ioloop_iter cfg r0 s)) = 0)
   \<and> (filter_rune cfg r0 = (0, True) \<and> Len s \<noteq> 0 \<and> filter_rune cfg r2 = (0, True)
        \<and> Len (fst (ioloop_iter cfg r0 s)) = 0 \<longrightarrow>
        snd (ioloop_iter cfg r2 (fst (ioloop_iter cfg r0 s))) = (Some (ErrChan EOF), False))"
proof (intro conjI impI)
  assume "filter_rune cfg r0 = (0, True) \<and> Len s \<noteq> 0 \<and> Listener cfg = None"
  then show "Len (fst (ioloop_iter cfg r0 s)) = 0"
    by (simp add: ioloop_iter_eof_flush notify_none dispatch_enter Len_def)
next
  assume a: "filter_rune cfg r0 = (0, True) \<and> Len s \<noteq> 0 \<and> filter_rune cfg r2 = (0, True)
        \<and> Len (fst (ioloop_iter cfg r0 s)) = 0"
  show "snd (ioloop_iter cfg r2 (fst (ioloop_iter cfg r0 s))) = (Some (ErrChan EOF), False)"
    using ioloop_iter_eof_empty [of cfg r2 "fst (ioloop_iter cfg r0 s)"] a by simp
qed (simp_all add: ioloop_iter_eof_empty ioloop_iter_eof_flush ioloop_iter_enter)

lemma notify_listener_cfg:
  "notify listener_cfg r s =
     s\<lparr>content := [120], cursor := 1,
       trace := trace s @ [EOnChange (content s) (int (cursor s)) r]\<rparr>"
  by (simp add: notify_some [OF listener_cfg_simps(1)] example_listener_def clamp_idx_def)

lemma trace_notify:
  "trace (notify cfg r s) =
     trace s @ (case Listener cfg of None \<Rightarrow> []
                | Some l \<Rightarrow> [EOnChange (content s) (int (cursor s)) r])"
  by (cases "Listener cfg")
     (simp_all add: notify_none notify_some split: prod.split)

lemma Init_banner_empty:
  "(InterruptPrompt (fst (Config_Init c)) = [])
     = (if inited c then InterruptPrompt c = [] else InterruptPrompt c = [newline])"
  "(EOFPrompt (fst (Config_Init c)) = [])
     = (if inited c then EOFPrompt c = [] else EOFPrompt c = [newline])"
  by (auto simp add: Config_Init_def banner_default_def caret_C_def caret_D_def)

lemma Runes_exits:
  "Runes cfg env s = Some (s', res) \<Longrightarrow> \<not> rawmode s' \<and> last (trace s') = EExitRawMode"
  using Runes_SomeD [of cfg env s s' res] by (auto simp add: ExitRawMode_raw)

lemma String_SomeD:
  "String cfg env s = Some (s', str, err) \<Longrightarrow>
   \<exists>r. Runes cfg env s = Some (s', r, err) \<and> str = string_of_runes r"
  by (auto simp add: String_def split: option.splits)

lemma Slice_SomeD:
  "Slice cfg env s = Some (s', b, err) \<Longrightarrow> \<exists>r e. Runes cfg env s = Some (s', r, e)"
  by (auto simp add: Slice_def split: option.splits if_splits)

lemma SetConfig_keeps:
  "Operation_SetConfig cfg s = Inr (s', old, err) \<Longrightarrow>
   rawmode s' = rawmode s \<and> trace s' = trace s \<and> err = None"
  by (auto simp add: Operation_SetConfig_def Config_Init_def RuneBuffer_SetConfig_def
      SetMask_def SetPrompt_def Let_def split: if_splits option.splits)

lemma EnterPasswordMode_keeps:
  "EnterPasswordMode cfg s = Inr (s', err) \<Longrightarrow>
   rawmode s' = rawmode s \<and> trace s' = trace s \<and> err = None"
  by (auto simp add: EnterPasswordMode_def split: sum.splits dest: SetConfig_keeps)

lemma ExitPasswordMode_keeps:
  "ExitPasswordMode s = Inr s' \<Longrightarrow> rawmode s' = rawmode s \<and> trace s' = trace s"
  by (auto simp add: ExitPasswordMode_def split: sum.splits dest: SetConfig_keeps)

lemma PasswordWithConfig_SomeD:
  "PasswordWithConfig cfg env s = Inr (Some (s', b, err)) \<Longrightarrow>
   \<exists>s1 a s2. EnterPasswordMode cfg s = Inr (s1, None) \<and> o_cfg s1 = Some a
     \<and> Slice (heap s1 a) env s1 = Some (s2, b, err) \<and> ExitPasswordMode s2 = Inr s'"
  by (auto simp add: PasswordWithConfig_def split: sum.splits option.splits if_splits
      dest: EnterPasswordMode_keeps)

lemma PasswordWithConfig_exits:
  "PasswordWithConfig cfg env s = Inr (Some (s', b, err)) \<Longrightarrow>
   \<not> rawmode s' \<and> last (trace s') = EExitRawMode"
proof -
  assume "PasswordWithConfig cfg env s = Inr (Some (s', b, err))"
  then obtain s1 a s2 where
    sl: "Slice (heap s1 a) env s1 = Some (s2, b, err)" and ex: "ExitPasswordMode s2 = Inr s'"
    using PasswordWithConfig_SomeD by blast
  from sl obtain r e where "Runes (heap s1 a) env s1 = Some (s2, r, e)"
    using Slice_SomeD by blast
  then have "\<not> rawmode s2 \<and> last (trace s2) = EExitRawMode"
    by (rule Runes_exits)
  with ExitPasswordMode_keeps [OF ex] show ?thesis by simp
qed

lemma PasswordEx_exits:
  "PasswordEx p l env s = Inr (Some (s', b, err)) \<Longrightarrow>
   \<not> rawmode s' \<and> last (trace s') = EExitRawMode"
  by (auto simp add: PasswordEx_def split: prod.splits dest: PasswordWithConfig_exits)

lemma Runes_enter_frame:
  "backupCfg (Runes_enter cfg s) = backupCfg s \<and> o_cfg (Runes_enter cfg s) = o_cfg s
   \<and> heap (Runes_enter cfg s) = heap s"
  by (cases "Listener cfg") (simp_all add: Runes_enter_none Runes_enter_some)

lemma WriteRune_frame:
  "backupCfg (fold WriteRune ks s) = backupCfg s \<and> o_cfg (fold WriteRune ks s) = o_cfg s
   \<and> heap (fold WriteRune ks s) = heap s"
  by (induction ks arbitrary: s) (simp_all add: WriteRune_def WriteString_def emit_def)

lemma Runes_typed_enter:
  "Listener cfg = None \<Longrightarrow> FuncFilterInputRune cfg = None \<Longrightarrow> list_all plain_key ks \<Longrightarrow>
   content s = [] \<Longrightarrow> cursor s = 0 \<Longrightarrow>
   Runes c (ioloop cfg (ks @ [CharEnter])) s =
     Some (ExitRawMode (fst (dispatch cfg CharEnter (fold WriteRune ks (Runes_enter c s)))),
           ks, None)"
proof -
  assume a: "Listener cfg = None" "FuncFilterInputRune cfg = None" "list_all plain_key ks"
    and b: "content s = []" "cursor s = 0"
  let ?s1 = "Runes_enter c s"
  let ?s2 = "fold WriteRune ks ?s1"
  have k: "content ?s2 = ks"
    using type_keys_content [of ?s1 ks] b by (simp add: Runes_enter_buf)
  have f: "filter_rune cfg CharEnter = (CharEnter, True)"
    using a by (simp add: filter_none)
  have "ioloop cfg (ks @ [CharEnter]) ?s1 = ioloop cfg [CharEnter] ?s2"
    using a by (simp add: ioloop_typed)
  also have "\<dots> = (fst (dispatch cfg CharEnter ?s2), Some (OutChan ks))"
    using a k by (simp add: ioloop_iter_enter [OF f] notify_none)
  finally show ?thesis
    by (simp add: Runes_def Runes_select_def)
qed

lemma Runes_typed_interrupt:
  "Listener cfg = None \<Longrightarrow> FuncFilterInputRune cfg = None \<Longrightarrow> list_all plain_key ks \<Longrightarrow>
   content s = [] \<Longrightarrow> cursor s = 0 \<Longrightarrow>
   Runes c (ioloop cfg (ks @ [CharInterrupt])) s =
     Some (ExitRawMode (fst (dispatch cfg CharInterrupt (fold WriteRune ks (Runes_enter c s)))),
           ks, Some ErrInterrupt)"
proof -
  assume a: "Listener cfg = None" "FuncFilterInputRune cfg = None" "list_all plain_key ks"
    and b: "content s = []" "cursor s = 0"
  let ?s1 = "Runes_enter c s"
  let ?s2 = "fold WriteRune ks ?s1"
  have k: "content ?s2 = ks"
    using type_keys_content [of ?s1 ks] b by (simp add: Runes_enter_buf)
  have f: "filter_rune cfg CharInterrupt = (CharInterrupt, True)"
    using a by (simp add: filter_none)
  have nz: "CharInterrupt \<noteq> 0" by (simp add: CharInterrupt_def)
  have "ioloop cfg (ks @ [CharInterrupt]) ?s1 = ioloop cfg [CharInterrupt] ?s2"
    using a by (simp add: ioloop_typed)
  also have "\<dots> = (fst (dispatch cfg CharInterrupt ?s2), Some (ErrChan (InterruptError ks)))"
    using a k by (simp add: ioloop_iter_key [OF f nz] notify_none dispatch_interrupt)
  finally show ?thesis
    by (simp add: Runes_def Runes_select_def)
qed

lemma read_state_frame:
  "backupCfg (ExitRawMode (fst (dispatch cfg CharEnter (fold WriteRune ks (Runes_enter c s)))))
     = backupCfg s
   \<and> o_cfg (ExitRawMode (fst (dispatch cfg CharEnter (fold WriteRune ks (Runes_enter c s)))))
     = o_cfg s
   \<and> heap (ExitRawMode (fst (dispatch cfg CharEnter (fold WriteRune ks (Runes_enter c s)))))
     = heap s"
  by (simp add: ExitRawMode_def emit_def dispatch_enter WriteRune_frame Runes_enter_frame)

lemma ExitPasswordMode_returns:
  "backupCfg s = Some a \<Longrightarrow> \<exists>s'. ExitPasswordMode s = Inr s'"
  by (auto simp add: ExitPasswordMode_def Operation_SetConfig_def Config_Init_def Let_def
      split: sum.splits prod.splits)

lemma EnterPasswordMode_same:
  "o_cfg s = Some a \<Longrightarrow> EnterPasswordMode (Some a) s = Inr (s\<lparr>backupCfg := Some a\<rparr>, None)"
  by (simp add: EnterPasswordMode_def Operation_SetConfig_def)

lemma EnterPasswordMode_fresh:
  "o_cfg s \<noteq> Some a \<Longrightarrow>
   \<exists>s1. EnterPasswordMode (Some a) s = Inr (s1, None) \<and> o_cfg s1 = Some a
     \<and> backupCfg s1 = o_cfg s \<and> content s1 = content s \<and> cursor s1 = cursor s"
  by (simp add: EnterPasswordMode_def Operation_SetConfig_def Config_Init_def Let_def
      RuneBuffer_SetConfig_def SetMask_def SetPrompt_def)

lemma PasswordWithConfig_returns:
  "EnterPasswordMode cfgp s = Inr (s1, None) \<Longrightarrow> o_cfg s1 = Some a \<Longrightarrow>
   backupCfg s1 = Some k \<Longrightarrow> content s1 = [] \<Longrightarrow> cursor s1 = 0 \<Longrightarrow>
   Listener cfg = None \<Longrightarrow> FuncFilterInputRune cfg = None \<Longrightarrow> list_all plain_key ks \<Longrightarrow>
   \<exists>s'. PasswordWithConfig cfgp (ioloop cfg (ks @ [CharEnter])) s
          = Inr (Some (s', bytes_of_string (string_of_runes ks), None))"
proof -
  assume e: "EnterPasswordMode cfgp s = Inr (s1, None)" and o: "o_cfg s1 = Some a"
    and b: "backupCfg s1 = Some k" and c: "content s1 = []" "cursor s1 = 0"
    and l: "Listener cfg = None" "FuncFilterInputRune cfg = None" "list_all plain_key ks"
  let ?s2 = "ExitRawMode (fst (dispatch cfg CharEnter
      (fold WriteRune ks (Runes_enter (heap s1 a) s1))))"
  have r: "Runes (heap s1 a) (ioloop cfg (ks @ [CharEnter])) s1 = Some (?s2, ks, None)"
    using Runes_typed_enter [OF l c] .
  have "backupCfg ?s2 = Some k"
    using b by (simp add: read_state_frame)
  then obtain s' where x: "ExitPasswordMode ?s2 = Inr s'"
    using ExitPasswordMode_returns by blast
  show ?thesis
    using e o r x by (simp add: PasswordWithConfig_def Slice_def)
qed

lemma Password_exits:
  "Password p env s = Inr (Some (s', b, err)) \<Longrightarrow>
   \<not> rawmode s' \<and> last (trace s') = EExitRawMode"
  by (simp add: Password_def PasswordEx_exits)

lemma PasswordWithConfig_enters:
  "PasswordWithConfig cfg env s = Inr (Some (s', b, err)) \<Longrightarrow>
   \<exists>s1 a s2 r e. EnterPasswordMode cfg s = Inr (s1, None) \<and> o_cfg s1 = Some a
     \<and> Runes (heap s1 a) env s1 = Some (s2, r, e)"
proof -
  assume "PasswordWithConfig cfg env s = Inr (Some (s', b, err))"
  then obtain s1 a s2 where
    en: "EnterPasswordMode cfg s = Inr (s1, None)" "o_cfg s1 = Some a"
    and sl: "Slice (heap s1 a) env s1 = Some (s2, b, err)"
    using PasswordWithConfig_SomeD by blast
  from sl obtain r e where "Runes (heap s1 a) env s1 = Some (s2, r, e)"
    using Slice_SomeD by blast
  with en show ?thesis by blast
qed

section \<open>Properties of Result\<close>

text \<open>
  C5. For every Result (line, error): CanContinue is true exactly when the line is
  non-empty and the error is ErrInterrupt; CanBreak is true exactly when CanContinue is
  false and the error is non-nil; the two are never true together.
\<close>

theorem C5_CanContinue_CanBreak:
  "CanContinue l = (Line l \<noteq> [] \<and> Error l = Some ErrInterrupt)
   \<and> CanBreak l = (\<not> CanContinue l \<and> Error l \<noteq> None)
   \<and> \<not> (CanContinue l \<and> CanBreak l)"
  by (simp add: CanContinue_def CanBreak_def)

theorem C5_CanContinue_CanBreak_witness:
  "CanContinue \<lparr>Line = [104, 105], Error = Some ErrInterrupt\<rparr>
   \<and> \<not> CanBreak \<lparr>Line = [104, 105], Error = Some ErrInterrupt\<rparr>
   \<and> \<not> CanContinue \<lparr>Line = [], Error = Some ErrInterrupt\<rparr>
   \<and> CanBreak \<lparr>Line = [], Error = Some ErrInterrupt\<rparr>
   \<and> CanBreak \<lparr>Line = [104], Error = Some EOF\<rparr>
   \<and> \<not> CanBreak \<lparr>Line = [104], Error = None\<rparr>"
  using C5_CanContinue_CanBreak [of "\<lparr>Line = [104, 105], Error = Some ErrInterrupt\<rparr>"]
    C5_CanContinue_CanBreak [of "\<lparr>Line = [], Error = Some ErrInterrupt\<rparr>"]
    C5_CanContinue_CanBreak [of "\<lparr>Line = [104], Error = Some EOF\<rparr>"]
    C5_CanContinue_CanBreak [of "\<lparr>Line = [104], Error = None\<rparr>"]
  by simp

section \<open>The interrupt key\<close>

text \<open>
  C1. On the interrupt key (Ctrl+C) the loop moves the cursor to the line end, re-renders,
  appends the interrupt banner and a newline unless UniqueEditLine is on, resets the
  buffer, and sends an InterruptError whose text is the buffer content without the banner;
  the read returns that text with ErrInterrupt. Typing text and then Ctrl+C returns
  exactly the typed text.
\<close>

theorem C1_interrupt:
  "(case dispatch cfg CharInterrupt s of
      (s', m) \<Rightarrow>
        m = Some (ErrChan (InterruptError (content s))) \<and> content s' = [] \<and> cursor s' = 0 \<and>
        trace s' = trace s @ [EErase, ERedraw] @
          (if UniqueEditLine cfg then [] else [EBufWrite (InterruptPrompt cfg @ [newline])]))
   \<and> Runes_select (ErrChan (InterruptError x)) = (x, Some ErrInterrupt)
   \<and> (filter_rune cfg r0 = (CharInterrupt, True) \<longrightarrow>
        fst (snd (ioloop_iter cfg r0 s)) = Some (ErrChan (InterruptError (content s))))
   \<and> (Listener cfg = None \<and> FuncFilterInputRune cfg = None \<and> list_all plain_key typed
        \<and> content s = [] \<and> cursor s = 0 \<longrightarrow>
        (\<exists>s'. Runes cfg (ioloop cfg (typed @ [CharInterrupt])) s
                = Some (s', typed, Some ErrInterrupt)))"
proof (intro conjI impI)
  show "case dispatch cfg CharInterrupt s of
      (s', m) \<Rightarrow>
        m = Some (ErrChan (InterruptError (content s))) \<and> content s' = [] \<and> cursor s' = 0 \<and>
        trace s' = trace s @ [EErase, ERedraw] @
          (if UniqueEditLine cfg then [] else [EBufWrite (InterruptPrompt cfg @ [newline])])"
    by (simp add: dispatch_interrupt)
  show "Runes_select (ErrChan (InterruptError x)) = (x, Some ErrInterrupt)"
    by (simp add: Runes_select_def)
next
  assume "filter_rune cfg r0 = (CharInterrupt, True)"
  moreover have "CharInterrupt \<noteq> 0" by (simp add: CharInterrupt_def)
  ultimately show "fst (snd (ioloop_iter cfg r0 s)) = Some (ErrChan (InterruptError (content s)))"
    by (simp add: ioloop_iter_key dispatch_interrupt)
next
  assume a: "Listener cfg = None \<and> FuncFilterInputRune cfg = None \<and> list_all plain_key typed
        \<and> content s = [] \<and> cursor s = 0"
  let ?s1 = "Runes_enter cfg s"
  let ?s2 = "fold WriteRune typed ?s1"
  have c: "content ?s2 = typed"
    using type_keys_content [of ?s1 typed] a by (simp add: Runes_enter_buf)
  have "ioloop cfg (typed @ [CharInterrupt]) ?s1 = ioloop cfg [CharInterrupt] ?s2"
    using a by (simp add: ioloop_typed)
  also have "\<dots> = (fst (dispatch cfg CharInterrupt ?s2), Some (ErrChan (InterruptError typed)))"
  proof -
    have nz: "CharInterrupt \<noteq> 0" by (simp add: CharInterrupt_def)
    show ?thesis
      using a c nz by (simp add: ioloop_iter_key filter_none notify_none dispatch_interrupt)
  qed
  finally show "\<exists>s'. Runes cfg (ioloop cfg (typed @ [CharInterrupt])) s
                = Some (s', typed, Some ErrInterrupt)"
    by (simp add: Runes_def Runes_select_def)
qed

theorem C1_interrupt_witness:
  "filter_rune example_cfg 3 = (CharInterrupt, True)
   \<and> fst (snd (ioloop_iter example_cfg 3 example_session)) = Some (ErrChan (InterruptError []))
   \<and> Listener example_cfg = None \<and> FuncFilterInputRune example_cfg = None
   \<and> list_all plain_key (map of_char ''hello'')
   \<and> content example_session = [] \<and> cursor example_session = 0
   \<and> (\<exists>s'. Runes example_cfg (ioloop example_cfg (map of_char ''hello'' @ [CharInterrupt]))
               example_session
             = Some (s', map of_char ''hello'', Some ErrInterrupt))"
proof -
  have f: "filter_rune example_cfg 3 = (CharInterrupt, True)"
    by (simp add: filter_none example_cfg_simps CharInterrupt_def)
  have p: "list_all plain_key (map of_char ''hello'')"
    by (simp add: plain_key_def special_keys_def key_defs)
  show ?thesis
    using C1_interrupt [where cfg = example_cfg and s = example_session and ?r0.0 = 3
        and typed = "map of_char ''hello''"] f p
    by (simp add: example_cfg_simps example_session_simps)
qed

section \<open>The listener hook\<close>

text \<open>
  C7 (amended). With a listener configured, every iteration that reaches the key switch
  ends by calling it with the buffer's current content, its cursor and the key as
  dispatched, and the buffer's content and cursor are replaced by the returned values (the
  cursor clamped into the new content) exactly when the hook returns accepted; otherwise
  the hook leaves the buffer as it is. At the start of each read the hook is called once
  with empty content, cursor 0 and the zero key; what that call returns is dropped, and
  the buffer is not changed by it, accepted or not.

  As first stated, the state returned by the initial call is applied when accepted; a
  listener that accepts and returns the line x leaves the buffer empty at the start of a
  read.
\<close>

theorem C7_listener:
  "(Listener cfg = Some l \<and> filter_rune cfg r0 = (r, True) \<and> \<not> (r = 0 \<and> Len s = 0) \<longrightarrow>
      fst (ioloop_iter cfg r0 s) =
        (let k = (if r = 0 then CharEnter else r);
             s1 = fst (dispatch cfg k s);
             s2 = s1\<lparr>trace := trace s1 @ [EOnChange (content s1) (int (cursor s1)) k]\<rparr>
         in case l (content s1) (int (cursor s1)) k of
              (newLine, newPos, ok) \<Rightarrow>
                if ok then s2\<lparr>content := newLine, cursor := clamp_idx newPos (length newLine)\<rparr>
                else s2))
   \<and> (Listener cfg = Some l \<longrightarrow>
        Runes_enter cfg s =
          s\<lparr>rawmode := True,
            trace := trace s @ [EEnterRawMode, EOnChange [] 0 0, EErase, ERedraw, EKickRead]\<rparr>
        \<and> content (Runes_enter cfg s) = content s
        \<and> cursor (Runes_enter cfg s) = cursor s)
   \<and> (Listener cfg = None \<and> filter_rune cfg r0 = (r, True) \<and> \<not> (r = 0 \<and> Len s = 0) \<longrightarrow>
        fst (ioloop_iter cfg r0 s) = fst (dispatch cfg (if r = 0 then CharEnter else r) s))"
proof (intro conjI impI)
  assume a: "Listener cfg = Some l \<and> filter_rune cfg r0 = (r, True) \<and> \<not> (r = 0 \<and> Len s = 0)"
  then have i: "ioloop_iter cfg r0 s =
     (notify cfg (if r = 0 then CharEnter else r)
        (fst (dispatch cfg (if r = 0 then CharEnter else r) s)),
      snd (dispatch cfg (if r = 0 then CharEnter else r) s), True)"
    by (intro ioloop_iter_dispatched) simp_all
  from a have l: "Listener cfg = Some l" by simp
  show "fst (ioloop_iter cfg r0 s) =
        (let k = (if r = 0 then CharEnter else r);
             s1 = fst (dispatch cfg k s);
             s2 = s1\<lparr>trace := trace s1 @ [EOnChange (content s1) (int (cursor s1)) k]\<rparr>
         in case l (content s1) (int (cursor s1)) k of
              (newLine, newPos, ok) \<Rightarrow>
                if ok then s2\<lparr>content := newLine, cursor := clamp_idx newPos (length newLine)\<rparr>
                else s2)"
    unfolding i fst_conv notify_some [OF l] Let_def
    by (simp split: prod.split)
next
  assume a: "Listener cfg = None \<and> filter_rune cfg r0 = (r, True) \<and> \<not> (r = 0 \<and> Len s = 0)"
  then have i: "ioloop_iter cfg r0 s =
     (notify cfg (if r = 0 then CharEnter else r)
        (fst (dispatch cfg (if r = 0 then CharEnter else r) s)),
      snd (dispatch cfg (if r = 0 then CharEnter else r) s), True)"
    by (intro ioloop_iter_dispatched) simp_all
  from a show "fst (ioloop_iter cfg r0 s) = fst (dispatch cfg (if r = 0 then CharEnter else r) s)"
    unfolding i by (simp add: notify_none)
qed (simp_all add: Runes_enter_some)

theorem C7_listener_counterexample:
  "Listener listener_cfg = Some example_listener
   \<and> example_listener [] 0 0 = ([120], 1, True)
   \<and> trace (Runes_enter listener_cfg example_session)
       = [EEnterRawMode, EOnChange [] 0 0, EErase, ERedraw, EKickRead]
   \<and> content (Runes_enter listener_cfg example_session) = []
   \<and> cursor (Runes_enter listener_cfg example_session) = 0"
  by (simp add: listener_cfg_simps example_listener_def Runes_enter_some example_session_simps)

theorem C7_listener_witness:
  "Listener listener_cfg = Some example_listener
   \<and> filter_rune listener_cfg 97 = (97, True)
   \<and> \<not> ((97::int) = 0 \<and> Len example_session = 0)
   \<and> content (fst (ioloop_iter listener_cfg 97 example_session)) = [120]
   \<and> cursor (fst (ioloop_iter listener_cfg 97 example_session)) = 1
   \<and> trace (fst (ioloop_iter listener_cfg 97 example_session))
       = [EBufWrite [97], EOnChange [97] 1 97]
   \<and> Runes_enter listener_cfg example_session
       = example_session\<lparr>rawmode := True,
           trace := [EEnterRawMode, EOnChange [] 0 0, EErase, ERedraw, EKickRead]\<rparr>
   \<and> Listener example_cfg = None
   \<and> filter_rune example_cfg 97 = (97, True)
   \<and> content (fst (ioloop_iter example_cfg 97 example_session)) = [97]"
proof -
  have l: "Listener listener_cfg = Some example_listener" by (simp add: listener_cfg_simps)
  have f: "filter_rune listener_cfg 97 = (97, True)" by (simp add: filter_none listener_cfg_simps)
  have n: "\<not> ((97::int) = 0 \<and> Len example_session = 0)" by simp
  have p: "plain_key 97" by (simp add: plain_key_def special_keys_def key_defs)
  have d: "dispatch listener_cfg 97 example_session = (WriteRune 97 example_session, None)"
          "dispatch example_cfg 97 example_session = (WriteRune 97 example_session, None)"
    using p by (simp_all add: dispatch_plain)
  have w: "content (WriteRune 97 example_session) = [97]"
          "cursor (WriteRune 97 example_session) = 1"
          "trace (WriteRune 97 example_session) = [EBufWrite [97]]"
    by (simp_all add: buf_defs example_session_simps)
  note t = C7_listener [where cfg = listener_cfg and l = example_listener and ?r0.0 = 97
      and r = 97 and s = example_session]
  have x1: "fst (ioloop_iter listener_cfg 97 example_session) =
        (let k = (if (97::int) = 0 then CharEnter else 97);
             s1 = fst (dispatch listener_cfg k example_session);
             s2 = s1\<lparr>trace := trace s1 @ [EOnChange (content s1) (int (cursor s1)) k]\<rparr>
         in case example_listener (content s1) (int (cursor s1)) k of
              (newLine, newPos, ok) \<Rightarrow>
                if ok then s2\<lparr>content := newLine, cursor := clamp_idx newPos (length newLine)\<rparr>
                else s2)"
    using t l f n by blast
  have x2: "Runes_enter listener_cfg example_session =
          example_session\<lparr>rawmode := True,
            trace := trace example_session @ [EEnterRawMode, EOnChange [] 0 0, EErase, ERedraw, EKickRead]\<rparr>"
    using t l by blast
  have y: "content (fst (ioloop_iter listener_cfg 97 example_session)) = [120]"
          "cursor (fst (ioloop_iter listener_cfg 97 example_session)) = 1"
          "trace (fst (ioloop_iter listener_cfg 97 example_session)) = [EBufWrite [97], EOnChange [97] 1 97]"
    unfolding x1 by (simp_all add: d w example_listener_def clamp_idx_def)
  have l0: "Listener example_cfg = None" by (simp add: example_cfg_simps)
  have f0: "filter_rune example_cfg 97 = (97, True)" by (simp add: filter_none example_cfg_simps)
  have x3: "fst (ioloop_iter example_cfg 97 example_session)
      = fst (dispatch example_cfg (if (97::int) = 0 then CharEnter else 97) example_session)"
    using C7_listener [where cfg = example_cfg and ?r0.0 = 97 and r = 97 and s = example_session]
      l0 f0 n by blast
  have z: "content (fst (ioloop_iter example_cfg 97 example_session)) = [97]"
    unfolding x3 by (simp add: d w)
  show ?thesis
    using l f n y x2 l0 f0 z by (simp add: example_session_simps)
qed

section \<open>Writes through the wrapped output streams\<close>

text \<open>
  C8. A write through the wrapper of Stdout or Stderr, or through Instance.Write, made
  while the terminal is reading runs inside a Refresh: the rendering is erased, the
  underlying writer is called, the line is redrawn; the wrapper returns the byte count and
  the error of the underlying writer as they are. A write made while the terminal is not
  reading goes to the underlying writer alone, with no erase and no redraw.
\<close>

theorem C8_wrapped_write:
  "wrapWriter_Write W (Some w) b s =
     Inr (W w b,
          s\<lparr>trace := trace s @ (if IsReading s then [EErase, ETargetWrite w b, ERedraw]
                                 else [ETargetWrite w b])\<rparr>)
   \<and> (if IsReading s
       then wrapWriter_Write W (Some w) b s = Inr (Refresh (Some (\<lambda>v. target_Write W w b)) (0, None) s)
       else wrapWriter_Write W (Some w) b s = Inr (target_Write W w b s))
   \<and> Instance_Write W cfg b s = wrapWriter_Write W (Operation_Stdout cfg) b s
   \<and> Operation_Stdout cfg = Stdout cfg
   \<and> Operation_Stderr cfg = Stderr cfg"
proof (intro conjI)
  show "wrapWriter_Write W (Some w) b s =
     Inr (W w b,
          s\<lparr>trace := trace s @ (if IsReading s then [EErase, ETargetWrite w b, ERedraw]
                                 else [ETargetWrite w b])\<rparr>)"
    by (cases "IsReading s") (simp_all add: wrapWriter_reading wrapWriter_idle)
  show "if IsReading s
       then wrapWriter_Write W (Some w) b s = Inr (Refresh (Some (\<lambda>v. target_Write W w b)) (0, None) s)
       else wrapWriter_Write W (Some w) b s = Inr (target_Write W w b s)"
    by (simp add: wrapWriter_Write_def)
qed (simp_all add: Instance_Write_def Operation_Stdout_def Operation_Stderr_def)

theorem C8_wrapped_write_witness:
  "IsReading (example_session\<lparr>isReading := True\<rparr>)
   \<and> Instance_Write example_W example_cfg [1, 2, 3] (example_session\<lparr>isReading := True\<rparr>)
       = Inr ((3, None),
              example_session\<lparr>isReading := True,
                trace := [EErase, ETargetWrite pkg_Stdout [1, 2, 3], ERedraw]\<rparr>)
   \<and> \<not> IsReading example_session
   \<and> wrapWriter_Write example_W (Operation_Stderr example_cfg) [1, 2, 3] example_session
       = Inr ((0, Some (OtherError 1)),
              example_session\<lparr>trace := [ETargetWrite pkg_Stderr [1, 2, 3]]\<rparr>)"
proof -
  have o: "Stdout example_cfg = Some pkg_Stdout" "Stderr example_cfg = Some pkg_Stderr"
    by (simp_all add: example_cfg_def New_Config_def Config_Init_def or_default_def)
  have r: "IsReading (example_session\<lparr>isReading := True\<rparr>)" "\<not> IsReading example_session"
    by (simp_all add: IsReading_def example_session_simps)
  note t1 = C8_wrapped_write [where W = example_W and w = pkg_Stdout and b = "[1, 2, 3]"
      and s = "example_session\<lparr>isReading := True\<rparr>" and cfg = example_cfg]
  note t2 = C8_wrapped_write [where W = example_W and w = pkg_Stderr and b = "[1, 2, 3]"
      and s = example_session and cfg = example_cfg]
  have a: "Instance_Write example_W example_cfg [1, 2, 3] (example_session\<lparr>isReading := True\<rparr>)
       = Inr ((3, None),
              example_session\<lparr>isReading := True,
                trace := [EErase, ETargetWrite pkg_Stdout [1, 2, 3], ERedraw]\<rparr>)"
    using t1 r by (simp add: o example_W_def example_session_simps)
  have b: "wrapWriter_Write example_W (Operation_Stderr example_cfg) [1, 2, 3] example_session
       = Inr ((0, Some (OtherError 1)),
              example_session\<lparr>trace := [ETargetWrite pkg_Stderr [1, 2, 3]]\<rparr>)"
    using t2 r by (simp add: o example_W_def example_session_simps)
  show ?thesis using r a b by (intro conjI)
qed

section \<open>Applying a configuration twice\<close>

text \<open>
  C10. Config.Init applies its defaults at most once: on a Config that is already
  initialized, and so on the result of a first call, it returns nil and changes nothing.
  Operation.SetConfig and Instance.SetConfig called with the very pointer that is already
  active return that pointer and change nothing, with no call of Init.
\<close>

theorem C10_idempotent:
  "Config_Init (fst (Config_Init c)) = (fst (Config_Init c), None)
   \<and> snd (Config_Init c) = None
   \<and> (inited c \<longrightarrow> Config_Init c = (c, None))
   \<and> Operation_SetConfig (o_cfg s) s = Inr (s, o_cfg s, None)
   \<and> Instance_SetConfig (i_Config s) s = Inr (s, i_Config s)"
proof (intro conjI impI)
  show "Config_Init (fst (Config_Init c)) = (fst (Config_Init c), None)"
    by (rule Config_Init_inited) (rule Config_Init_sets_inited)
  show "snd (Config_Init c) = None"
    by (rule Config_Init_no_error)
  show "Operation_SetConfig (o_cfg s) s = Inr (s, o_cfg s, None)"
    by (simp add: Operation_SetConfig_def)
  show "Instance_SetConfig (i_Config s) s = Inr (s, i_Config s)"
    by (simp add: Instance_SetConfig_def)
next
  assume "inited c"
  then show "Config_Init c = (c, None)" by (rule Config_Init_inited)
qed

theorem C10_idempotent_witness:
  "inited example_cfg
   \<and> Config_Init example_cfg = (example_cfg, None)
   \<and> Config_Init (fst (Config_Init (New_Config [62, 32]))) = (example_cfg, None)
   \<and> fst (Config_Init (New_Config [62, 32])) \<noteq> New_Config [62, 32]
   \<and> Operation_SetConfig (Some 1) example_session = Inr (example_session, Some 1, None)
   \<and> Instance_SetConfig (Some 1) example_session = Inr (example_session, Some 1)"
proof -
  have i: "inited example_cfg" by (simp add: example_cfg_def Config_Init_sets_inited)
  have n: "\<not> inited (New_Config [62, 32])" by (simp add: New_Config_def)
  have d: "fst (Config_Init (New_Config [62, 32])) \<noteq> New_Config [62, 32]"
    using n Config_Init_sets_inited [of "New_Config [62, 32]"] by auto
  have p: "o_cfg example_session = Some 1" "i_Config example_session = Some 1"
    by (simp_all add: example_session_def)
  note t = C10_idempotent [where c = example_cfg and s = example_session]
  note u = C10_idempotent [where c = "New_Config [62, 32]" and s = example_session]
  have a: "Config_Init example_cfg = (example_cfg, None)" using t i by blast
  have b: "Config_Init (fst (Config_Init (New_Config [62, 32]))) = (example_cfg, None)"
    using u by (simp add: example_cfg_def)
  have c: "Operation_SetConfig (Some 1) example_session = Inr (example_session, Some 1, None)"
    using t p by simp
  have e: "Instance_SetConfig (Some 1) example_session = Inr (example_session, Some 1)"
    using t p by simp
  show ?thesis using i a b d c e by (intro conjI)
qed

section \<open>The forward-delete key\<close>

text \<open>
  C2 (amended). When Ctrl+D is received with an empty buffer, the loop writes the
  end-of-input banner and a newline unless UniqueEditLine is on, resets the buffer and
  sends io.EOF, and the read returns an empty text with io.EOF. With a non-empty buffer
  Ctrl+D never sends end-of-input, and the read goes on waiting: the loop deletes the code
  point at the cursor when the cursor is before the end of the content, and with the
  cursor at the end it leaves the content as it is and rings the bell.
  The theorem states each part for the case of the switch, for the iteration of the loop
  that receives the key, and for the read.

  As first stated, Ctrl+D with a non-empty buffer always deletes one code point; after
  typing a and pressing Ctrl+D the content is still a.
\<close>

theorem C2_ctrl_d:
  "(Len s = 0 \<longrightarrow>
      dispatch cfg CharDelete s =
        (s\<lparr>content := [], cursor := 0,
           trace := trace s @ (if UniqueEditLine cfg then [EErase]
                               else [EBufWrite (EOFPrompt cfg @ [newline])])\<rparr>,
         Some (ErrChan EOF)))
   \<and> Runes_select (ErrChan EOF) = ([], Some EOF)
   \<and> (Len s \<noteq> 0 \<longrightarrow> snd (dispatch cfg CharDelete s) = None)
   \<and> (cursor s < Len s \<longrightarrow>
        content (fst (dispatch cfg CharDelete s))
          = take (cursor s) (content s) @ drop (Suc (cursor s)) (content s)
        \<and> Suc (length (content (fst (dispatch cfg CharDelete s)))) = length (content s)
        \<and> cursor (fst (dispatch cfg CharDelete s)) = cursor s
        \<and> trace (fst (dispatch cfg CharDelete s)) = trace s @ [EKickRead])
   \<and> (Len s \<noteq> 0 \<and> Len s \<le> cursor s \<longrightarrow>
        dispatch cfg CharDelete s = (s\<lparr>trace := trace s @ [EKickRead, EBell]\<rparr>, None))
   \<and> (filter_rune cfg r0 = (CharDelete, True) \<and> Len s = 0 \<longrightarrow>
        ioloop_iter cfg r0 s =
          (notify cfg CharDelete
             (s\<lparr>content := [], cursor := 0,
                trace := trace s @ (if UniqueEditLine cfg then [EErase]
                                    else [EBufWrite (EOFPrompt cfg @ [newline])])\<rparr>),
           Some (ErrChan EOF), True)
        \<and> (\<exists>s'. Runes cfg (ioloop cfg [r0]) s = Some (s', [], Some EOF)))
   \<and> (filter_rune cfg r0 = (CharDelete, True) \<and> cursor s < Len s \<longrightarrow>
        ioloop_iter cfg r0 s =
          (notify cfg CharDelete
             (s\<lparr>content := take (cursor s) (content s) @ drop (Suc (cursor s)) (content s),
                trace := trace s @ [EKickRead]\<rparr>),
           None, True))
   \<and> (filter_rune cfg r0 = (CharDelete, True) \<and> Len s \<noteq> 0 \<and> Len s \<le> cursor s \<longrightarrow>
        ioloop_iter cfg r0 s =
          (notify cfg CharDelete (s\<lparr>trace := trace s @ [EKickRead, EBell]\<rparr>), None, True))
   \<and> (filter_rune cfg r0 = (CharDelete, True) \<and> Len s \<noteq> 0 \<longrightarrow>
        fst (snd (ioloop_iter cfg r0 s)) = None
        \<and> snd (ioloop cfg [r0] (Runes_enter cfg s)) = None
        \<and> Runes cfg (ioloop cfg [r0]) s = None)"
proof (intro conjI impI)
  show "Runes_select (ErrChan EOF) = ([], Some EOF)"
    by (simp add: Runes_select_def)
next
  assume "Len s \<noteq> 0"
  then show "snd (dispatch cfg CharDelete s) = None"
    by (cases "cursor s < length (content s)")
       (simp_all add: dispatch_delete_inside dispatch_delete_at_end Len_def)
next
  assume "Len s \<noteq> 0 \<and> Len s \<le> cursor s"
  then show "dispatch cfg CharDelete s = (s\<lparr>trace := trace s @ [EKickRead, EBell]\<rparr>, None)"
    by (simp add: dispatch_delete_at_end Len_def)
next
  assume a: "filter_rune cfg r0 = (CharDelete, True) \<and> Len s = 0"
  then show "ioloop_iter cfg r0 s =
          (notify cfg CharDelete
             (s\<lparr>content := [], cursor := 0,
                trace := trace s @ (if UniqueEditLine cfg then [EErase]
                                    else [EBufWrite (EOFPrompt cfg @ [newline])])\<rparr>),
           Some (ErrChan EOF), True)"
    by (simp add: ioloop_iter_delete_empty)
  from a have "Len (Runes_enter cfg s) = 0" by (simp add: Len_Runes_enter)
  with a have "snd (ioloop cfg [r0] (Runes_enter cfg s)) = Some (ErrChan EOF)"
    by (simp add: ioloop_iter_delete_empty)
  then show "\<exists>s'. Runes cfg (ioloop cfg [r0]) s = Some (s', [], Some EOF)"
    by (cases "ioloop cfg [r0] (Runes_enter cfg s)") (simp add: Runes_def Runes_select_def)
next
  assume a: "filter_rune cfg r0 = (CharDelete, True) \<and> Len s \<noteq> 0"
  then show "fst (snd (ioloop_iter cfg r0 s)) = None"
    by (simp add: ioloop_iter_delete_nonempty)
  from a have l: "Len (Runes_enter cfg s) \<noteq> 0" by (simp add: Len_Runes_enter)
  from a l have n: "fst (snd (ioloop_iter cfg r0 (Runes_enter cfg s))) = None"
    by (simp add: ioloop_iter_delete_nonempty)
  have g: "snd (snd (ioloop_iter cfg r0 (Runes_enter cfg s)))"
    using a l by (simp add: ioloop_iter_delete_nonempty)
  show e: "snd (ioloop cfg [r0] (Runes_enter cfg s)) = None"
    using n g by (cases "ioloop_iter cfg r0 (Runes_enter cfg s)") simp
  show "Runes cfg (ioloop cfg [r0]) s = None"
    using e by (cases "ioloop cfg [r0] (Runes_enter cfg s)") (simp add: Runes_def)
qed (simp_all add: dispatch_delete_empty dispatch_delete_inside Len_def
      ioloop_iter_delete_inside ioloop_iter_delete_at_end)

theorem C2_ctrl_d_counterexample:
  "content (fst (ioloop example_cfg [97] example_session)) = [97]
   \<and> content (fst (ioloop example_cfg [97, CharDelete] example_session)) = [97]
   \<and> trace (fst (ioloop example_cfg [97, CharDelete] example_session))
       = [EBufWrite [97], EKickRead, EBell]"
proof -
  have p: "plain_key 97" by (simp add: plain_key_def special_keys_def key_defs)
  have nz: "CharDelete \<noteq> 0" by (simp add: CharDelete_def)
  have a: "ioloop_iter example_cfg 97 example_session
            = (WriteRune 97 example_session, None, True)"
    using p by (simp add: ioloop_iter_plain example_cfg_simps)
  have b: "content (WriteRune 97 example_session) = [97]"
          "cursor (WriteRune 97 example_session) = 1"
          "trace (WriteRune 97 example_session) = [EBufWrite [97]]"
    by (simp_all add: buf_defs example_session_simps)
  have c: "ioloop_iter example_cfg CharDelete (WriteRune 97 example_session)
            = ((WriteRune 97 example_session)\<lparr>trace := [EBufWrite [97], EKickRead, EBell]\<rparr>, None, True)"
    using nz b
    by (simp add: ioloop_iter_key filter_none notify_none example_cfg_simps dispatch_delete_at_end)
  show ?thesis using a b c by simp
qed

theorem C2_ctrl_d_witness:
  "Len example_session = 0 \<and> filter_rune example_cfg 4 = (CharDelete, True)
   \<and> dispatch example_cfg CharDelete example_session
       = (example_session\<lparr>content := [], cursor := 0, trace := [EBufWrite [94, 68, 10]]\<rparr>,
          Some (ErrChan EOF))
   \<and> ioloop_iter example_cfg 4 example_session
       = (example_session\<lparr>content := [], cursor := 0, trace := [EBufWrite [94, 68, 10]]\<rparr>,
          Some (ErrChan EOF), True)
   \<and> (\<exists>s'. Runes example_cfg (ioloop example_cfg [4]) example_session = Some (s', [], Some EOF))
   \<and> cursor (example_session\<lparr>content := [97, 98]\<rparr>) < Len (example_session\<lparr>content := [97, 98]\<rparr>)
   \<and> content (fst (dispatch example_cfg CharDelete (example_session\<lparr>content := [97, 98]\<rparr>))) = [98]
   \<and> ioloop_iter example_cfg 4 (example_session\<lparr>content := [97, 98]\<rparr>)
       = (example_session\<lparr>content := [98], trace := [EKickRead]\<rparr>, None, True)
   \<and> Runes example_cfg (ioloop example_cfg [4]) (example_session\<lparr>content := [97, 98]\<rparr>) = None
   \<and> Len (example_session\<lparr>content := [97], cursor := 1\<rparr>) \<noteq> 0
   \<and> Len (example_session\<lparr>content := [97], cursor := 1\<rparr>)
        \<le> cursor (example_session\<lparr>content := [97], cursor := 1\<rparr>)
   \<and> snd (dispatch example_cfg CharDelete (example_session\<lparr>content := [97], cursor := 1\<rparr>)) = None
   \<and> ioloop_iter example_cfg 4 (example_session\<lparr>content := [97], cursor := 1\<rparr>)
       = (example_session\<lparr>content := [97], cursor := 1, trace := [EKickRead, EBell]\<rparr>, None, True)"
proof -
  let ?b = "example_session\<lparr>content := [97, 98]\<rparr>"
  let ?c = "example_session\<lparr>content := [97], cursor := 1\<rparr>"
  have f: "filter_rune example_cfg 4 = (CharDelete, True)"
    by (simp add: filter_none example_cfg_simps CharDelete_def)
  have l: "Len example_session = 0" "cursor ?b < Len ?b" "Len ?b \<noteq> 0"
    "Len ?c \<noteq> 0" "Len ?c \<le> cursor ?c"
    by (simp_all add: Len_def example_session_simps)
  have n: "\<And>r s. notify example_cfg r s = s"
    by (simp add: notify_none example_cfg_simps)
  note ta = C2_ctrl_d [where cfg = example_cfg and s = example_session and ?r0.0 = 4]
  note tb = C2_ctrl_d [where cfg = example_cfg and s = ?b and ?r0.0 = 4]
  note tc = C2_ctrl_d [where cfg = example_cfg and s = ?c and ?r0.0 = 4]
  have a1: "dispatch example_cfg CharDelete example_session =
        (example_session\<lparr>content := [], cursor := 0,
           trace := trace example_session @ (if UniqueEditLine example_cfg then [EErase]
                               else [EBufWrite (EOFPrompt example_cfg @ [newline])])\<rparr>,
         Some (ErrChan EOF))"
    using ta l by blast
  have a2: "ioloop_iter example_cfg 4 example_session =
          (notify example_cfg CharDelete
             (example_session\<lparr>content := [], cursor := 0,
                trace := trace example_session @ (if UniqueEditLine example_cfg then [EErase]
                                    else [EBufWrite (EOFPrompt example_cfg @ [newline])])\<rparr>),
           Some (ErrChan EOF), True)"
    using ta f l by blast
  have a3: "\<exists>s'. Runes example_cfg (ioloop example_cfg [4]) example_session = Some (s', [], Some EOF)"
    using ta f l by blast
  have b1: "content (fst (dispatch example_cfg CharDelete ?b))
          = take (cursor ?b) (content ?b) @ drop (Suc (cursor ?b)) (content ?b)"
    using tb l by blast
  have b2: "ioloop_iter example_cfg 4 ?b =
          (notify example_cfg CharDelete
             (?b\<lparr>content := take (cursor ?b) (content ?b) @ drop (Suc (cursor ?b)) (content ?b),
                trace := trace ?b @ [EKickRead]\<rparr>),
           None, True)"
    using tb f l by blast
  have b3: "Runes example_cfg (ioloop example_cfg [4]) ?b = None"
    using tb f l by blast
  have c1: "snd (dispatch example_cfg CharDelete ?c) = None"
    using tc l by blast
  have c2: "ioloop_iter example_cfg 4 ?c =
          (notify example_cfg CharDelete (?c\<lparr>trace := trace ?c @ [EKickRead, EBell]\<rparr>), None, True)"
    using tc f l by blast
  have a1': "dispatch example_cfg CharDelete example_session
       = (example_session\<lparr>content := [], cursor := 0, trace := [EBufWrite [94, 68, 10]]\<rparr>,
          Some (ErrChan EOF))"
    unfolding a1 by (simp add: example_session_simps example_cfg_simps newline_def)
  have a2': "ioloop_iter example_cfg 4 example_session
       = (example_session\<lparr>content := [], cursor := 0, trace := [EBufWrite [94, 68, 10]]\<rparr>,
          Some (ErrChan EOF), True)"
    unfolding a2 n by (simp add: example_session_simps example_cfg_simps newline_def)
  have b1': "content (fst (dispatch example_cfg CharDelete ?b)) = [98]"
    unfolding b1 by (simp add: example_session_simps)
  have b2': "ioloop_iter example_cfg 4 ?b
       = (example_session\<lparr>content := [98], trace := [EKickRead]\<rparr>, None, True)"
    unfolding b2 n by (simp add: example_session_simps)
  have c2': "ioloop_iter example_cfg 4 ?c
       = (example_session\<lparr>content := [97], cursor := 1, trace := [EKickRead, EBell]\<rparr>, None, True)"
    unfolding c2 n by (simp add: example_session_simps)
  show ?thesis
    using l(1) f a1' a2' a3 l(2) b1' b2' b3 l(4) l(5) c1 c2' by (intro conjI)
qed

section \<open>Enter and line feed\<close>

text \<open>
  C3. On Enter or Ctrl+J the cursor first moves to the line end. With UniqueEditLine off
  a newline is appended to the buffer before the content is extracted and is cut from the
  sent text, so the completed line is exactly the buffer content; with UniqueEditLine on
  the rendering is erased and the sent text is the content as it is. In both cases the
  buffer is left with empty content and cursor 0.
  The theorem states this for the case of the switch at every cursor position (the sent
  line is the whole content wherever the cursor was, so the newline went to the end), for
  the iteration of the loop that receives the key, and for the read, which returns the
  line with a nil error; typing text and pressing Enter returns the typed text.
\<close>

theorem C3_enter:
  "dispatch cfg CharEnter s =
     (s\<lparr>content := [], cursor := 0,
        trace := trace s @ (if UniqueEditLine cfg then [EErase] else [EBufWrite [newline]])\<rparr>,
      Some (OutChan (content s)))
   \<and> dispatch cfg CharCtrlJ s = dispatch cfg CharEnter s
   \<and> dispatch cfg CharEnter (s\<lparr>cursor := i\<rparr>)
       = (s\<lparr>content := [], cursor := 0,
            trace := trace s @ (if UniqueEditLine cfg then [EErase] else [EBufWrite [newline]])\<rparr>,
          Some (OutChan (content s)))
   \<and> content (fst (dispatch cfg CharEnter s)) = []
   \<and> cursor (fst (dispatch cfg CharEnter s)) = 0
   \<and> Runes_select (OutChan (content s)) = (content s, None)
   \<and> (filter_rune cfg r0 = (CharEnter, True) \<longrightarrow>
        ioloop_iter cfg r0 s =
          (notify cfg CharEnter
             (s\<lparr>content := [], cursor := 0,
                trace := trace s @ (if UniqueEditLine cfg then [EErase]
                                    else [EBufWrite [newline]])\<rparr>),
           Some (OutChan (content s)), True)
        \<and> (\<exists>s'. Runes cfg (ioloop cfg [r0]) s = Some (s', content s, None)))
   \<and> (filter_rune cfg r0 = (CharCtrlJ, True) \<longrightarrow>
        ioloop_iter cfg r0 s =
          (notify cfg CharCtrlJ
             (s\<lparr>content := [], cursor := 0,
                trace := trace s @ (if UniqueEditLine cfg then [EErase]
                                    else [EBufWrite [newline]])\<rparr>),
           Some (OutChan (content s)), True)
        \<and> (\<exists>s'. Runes cfg (ioloop cfg [r0]) s = Some (s', content s, None)))
   \<and> (Listener cfg = None \<and> FuncFilterInputRune cfg = None \<longrightarrow>
        content (fst (ioloop_iter cfg CharEnter s)) = []
        \<and> cursor (fst (ioloop_iter cfg CharEnter s)) = 0
        \<and> content (fst (ioloop_iter cfg CharCtrlJ s)) = []
        \<and> cursor (fst (ioloop_iter cfg CharCtrlJ s)) = 0)
   \<and> (Listener cfg = None \<and> FuncFilterInputRune cfg = None \<and> list_all plain_key typed
        \<and> content s = [] \<and> cursor s = 0 \<longrightarrow>
        (\<exists>s'. Runes cfg (ioloop cfg (typed @ [CharEnter])) s = Some (s', typed, None))
        \<and> (\<exists>s'. Runes cfg (ioloop cfg (typed @ [CharCtrlJ])) s = Some (s', typed, None)))"
proof (intro conjI impI)
  show "Runes_select (OutChan (content s)) = (content s, None)"
    by (simp add: Runes_select_def)
  show "dispatch cfg CharEnter (s\<lparr>cursor := i\<rparr>)
       = (s\<lparr>content := [], cursor := 0,
            trace := trace s @ (if UniqueEditLine cfg then [EErase] else [EBufWrite [newline]])\<rparr>,
          Some (OutChan (content s)))"
    by (simp add: dispatch_enter)
next
  assume a: "filter_rune cfg r0 = (CharEnter, True)"
  show "ioloop_iter cfg r0 s =
          (notify cfg CharEnter
             (s\<lparr>content := [], cursor := 0,
                trace := trace s @ (if UniqueEditLine cfg then [EErase]
                                    else [EBufWrite [newline]])\<rparr>),
           Some (OutChan (content s)), True)"
    using ioloop_iter_enter [OF a, of s] by (simp add: dispatch_enter)
  have "snd (ioloop cfg [r0] (Runes_enter cfg s)) = Some (OutChan (content s))"
    using ioloop_iter_enter [OF a, of "Runes_enter cfg s"] by (simp add: Runes_enter_buf)
  from Runes_of_send [where env = "ioloop cfg [r0]" and cfg = cfg and s = s, OF this]
  show "\<exists>s'. Runes cfg (ioloop cfg [r0]) s = Some (s', content s, None)"
    by (simp add: Runes_select_def)
next
  assume a: "filter_rune cfg r0 = (CharCtrlJ, True)"
  show "ioloop_iter cfg r0 s =
          (notify cfg CharCtrlJ
             (s\<lparr>content := [], cursor := 0,
                trace := trace s @ (if UniqueEditLine cfg then [EErase]
                                    else [EBufWrite [newline]])\<rparr>),
           Some (OutChan (content s)), True)"
    using ioloop_iter_ctrl_j [OF a, of s] by (simp add: dispatch_ctrl_j)
  have "snd (ioloop cfg [r0] (Runes_enter cfg s)) = Some (OutChan (content s))"
    using ioloop_iter_ctrl_j [OF a, of "Runes_enter cfg s"] by (simp add: Runes_enter_buf)
  from Runes_of_send [where env = "ioloop cfg [r0]" and cfg = cfg and s = s, OF this]
  show "\<exists>s'. Runes cfg (ioloop cfg [r0]) s = Some (s', content s, None)"
    by (simp add: Runes_select_def)
next
  assume a: "Listener cfg = None \<and> FuncFilterInputRune cfg = None"
  then have f: "filter_rune cfg CharEnter = (CharEnter, True)"
    "filter_rune cfg CharCtrlJ = (CharCtrlJ, True)"
    by (simp_all add: filter_none)
  show "content (fst (ioloop_iter cfg CharEnter s)) = []"
    and "cursor (fst (ioloop_iter cfg CharEnter s)) = 0"
    using a by (simp_all add: ioloop_iter_enter [OF f(1)] notify_none dispatch_enter)
  show "content (fst (ioloop_iter cfg CharCtrlJ s)) = []"
    and "cursor (fst (ioloop_iter cfg CharCtrlJ s)) = 0"
    using a by (simp_all add: ioloop_iter_ctrl_j [OF f(2)] notify_none dispatch_ctrl_j)
next
  assume a: "Listener cfg = None \<and> FuncFilterInputRune cfg = None \<and> list_all plain_key typed
        \<and> content s = [] \<and> cursor s = 0"
  let ?s1 = "Runes_enter cfg s"
  let ?s2 = "fold WriteRune typed ?s1"
  have c: "content ?s2 = typed"
    using type_keys_content [of ?s1 typed] a by (simp add: Runes_enter_buf)
  have f: "filter_rune cfg CharEnter = (CharEnter, True)"
    "filter_rune cfg CharCtrlJ = (CharCtrlJ, True)"
    using a by (simp_all add: filter_none)
  have e: "ioloop cfg (typed @ [CharEnter]) ?s1 = ioloop cfg [CharEnter] ?s2"
    "ioloop cfg (typed @ [CharCtrlJ]) ?s1 = ioloop cfg [CharCtrlJ] ?s2"
    using a by (simp_all add: ioloop_typed)
  have "snd (ioloop cfg (typed @ [CharEnter]) ?s1) = Some (OutChan typed)"
    unfolding e using c by (simp add: ioloop_iter_enter [OF f(1)])
  from Runes_of_send [where env = "ioloop cfg (typed @ [CharEnter])" and cfg = cfg and s = s, OF this]
  show "\<exists>s'. Runes cfg (ioloop cfg (typed @ [CharEnter])) s = Some (s', typed, None)"
    by (simp add: Runes_select_def)
  have "snd (ioloop cfg (typed @ [CharCtrlJ]) ?s1) = Some (OutChan typed)"
    unfolding e using c by (simp add: ioloop_iter_ctrl_j [OF f(2)])
  from Runes_of_send [where env = "ioloop cfg (typed @ [CharCtrlJ])" and cfg = cfg and s = s, OF this]
  show "\<exists>s'. Runes cfg (ioloop cfg (typed @ [CharCtrlJ])) s = Some (s', typed, None)"
    by (simp add: Runes_select_def)
qed (simp_all add: dispatch_enter dispatch_ctrl_j)

theorem C3_enter_witness:
  "dispatch example_cfg CharEnter (example_session\<lparr>content := [120], cursor := 1\<rparr>)
     = (example_session\<lparr>content := [], cursor := 0, trace := [EBufWrite [10]]\<rparr>,
        Some (OutChan [120]))
   \<and> dispatch (example_cfg\<lparr>UniqueEditLine := True\<rparr>) CharCtrlJ
        (example_session\<lparr>content := [120], cursor := 0\<rparr>)
     = (example_session\<lparr>content := [], cursor := 0, trace := [EErase]\<rparr>,
        Some (OutChan [120]))
   \<and> filter_rune example_cfg 13 = (CharEnter, True)
   \<and> filter_rune example_cfg 10 = (CharCtrlJ, True)
   \<and> ioloop_iter example_cfg 13 (example_session\<lparr>content := [120], cursor := 1\<rparr>)
       = (example_session\<lparr>content := [], cursor := 0, trace := [EBufWrite [10]]\<rparr>,
          Some (OutChan [120]), True)
   \<and> ioloop_iter example_cfg 10 (example_session\<lparr>content := [120], cursor := 1\<rparr>)
       = (example_session\<lparr>content := [], cursor := 0, trace := [EBufWrite [10]]\<rparr>,
          Some (OutChan [120]), True)
   \<and> (\<exists>s'. Runes example_cfg (ioloop example_cfg [13])
               (example_session\<lparr>content := [120], cursor := 1\<rparr>) = Some (s', [120], None))
   \<and> (\<exists>s'. Runes example_cfg (ioloop example_cfg [10])
               (example_session\<lparr>content := [120], cursor := 1\<rparr>) = Some (s', [120], None))
   \<and> Listener example_cfg = None \<and> FuncFilterInputRune example_cfg = None
   \<and> list_all plain_key [120]
   \<and> content example_session = [] \<and> cursor example_session = 0
   \<and> content (fst (ioloop_iter example_cfg CharEnter
        (example_session\<lparr>content := [120], cursor := 1\<rparr>))) = []
   \<and> cursor (fst (ioloop_iter example_cfg CharEnter
        (example_session\<lparr>content := [120], cursor := 1\<rparr>))) = 0
   \<and> (\<exists>s'. Runes example_cfg (ioloop example_cfg ([120] @ [CharEnter])) example_session
             = Some (s', [120], None))
   \<and> (\<exists>s'. Runes example_cfg (ioloop example_cfg ([120] @ [CharCtrlJ])) example_session
             = Some (s', [120], None))"
proof -
  let ?x = "example_session\<lparr>content := [120], cursor := 1\<rparr>"
  let ?y = "example_session\<lparr>content := [120], cursor := 0\<rparr>"
  let ?u = "example_cfg\<lparr>UniqueEditLine := True\<rparr>"
  have f: "filter_rune example_cfg 13 = (CharEnter, True)"
    "filter_rune example_cfg 10 = (CharCtrlJ, True)"
    by (simp_all add: filter_none example_cfg_simps key_defs)
  have h: "Listener example_cfg = None" "FuncFilterInputRune example_cfg = None"
    "content example_session = []" "cursor example_session = 0"
    by (simp_all add: example_cfg_simps example_session_simps)
  have p: "list_all plain_key [120]"
    by (simp add: plain_key_def special_keys_def key_defs)
  have n: "\<And>r s. notify example_cfg r s = s"
    by (simp add: notify_none example_cfg_simps)
  note t1 = C3_enter [where cfg = example_cfg and s = ?x and ?r0.0 = 13 and typed = "[120]"]
  note t2 = C3_enter [where cfg = example_cfg and s = ?x and ?r0.0 = 10 and typed = "[120]"]
  note t3 = C3_enter [where cfg = ?u and s = ?y and ?r0.0 = 10 and typed = "[120]"]
  note t4 = C3_enter [where cfg = example_cfg and s = example_session and ?r0.0 = 13
      and typed = "[120]"]
  have a1: "dispatch example_cfg CharEnter ?x =
     (?x\<lparr>content := [], cursor := 0,
        trace := trace ?x @ (if UniqueEditLine example_cfg then [EErase] else [EBufWrite [newline]])\<rparr>,
      Some (OutChan (content ?x)))"
    using t1 by blast
  have a2: "dispatch ?u CharCtrlJ ?y = dispatch ?u CharEnter ?y"
    using t3 by blast
  have a3: "dispatch ?u CharEnter ?y =
     (?y\<lparr>content := [], cursor := 0,
        trace := trace ?y @ (if UniqueEditLine ?u then [EErase] else [EBufWrite [newline]])\<rparr>,
      Some (OutChan (content ?y)))"
    using t3 by blast
  have b1: "ioloop_iter example_cfg 13 ?x =
          (notify example_cfg CharEnter
             (?x\<lparr>content := [], cursor := 0,
                trace := trace ?x @ (if UniqueEditLine example_cfg then [EErase]
                                    else [EBufWrite [newline]])\<rparr>),
           Some (OutChan (content ?x)), True)"
    using t1 f by blast
  have b2: "ioloop_iter example_cfg 10 ?x =
          (notify example_cfg CharCtrlJ
             (?x\<lparr>content := [], cursor := 0,
                trace := trace ?x @ (if UniqueEditLine example_cfg then [EErase]
                                    else [EBufWrite [newline]])\<rparr>),
           Some (OutChan (content ?x)), True)"
    using t2 f by blast
  have c1: "\<exists>s'. Runes example_cfg (ioloop example_cfg [13]) ?x = Some (s', content ?x, None)"
    using t1 f by blast
  have c2: "\<exists>s'. Runes example_cfg (ioloop example_cfg [10]) ?x = Some (s', content ?x, None)"
    using t2 f by blast
  have d1: "content (fst (ioloop_iter example_cfg CharEnter ?x)) = []"
    using t1 h by blast
  have d2: "cursor (fst (ioloop_iter example_cfg CharEnter ?x)) = 0"
    using t1 h by blast
  have e1: "\<exists>s'. Runes example_cfg (ioloop example_cfg ([120] @ [CharEnter])) example_session
             = Some (s', [120], None)"
    using t4 h p by blast
  have e2: "\<exists>s'. Runes example_cfg (ioloop example_cfg ([120] @ [CharCtrlJ])) example_session
             = Some (s', [120], None)"
    using t4 h p by blast
  have a1': "dispatch example_cfg CharEnter ?x
     = (example_session\<lparr>content := [], cursor := 0, trace := [EBufWrite [10]]\<rparr>,
        Some (OutChan [120]))"
    unfolding a1 by (simp add: example_session_simps example_cfg_simps newline_def)
  have a3': "dispatch ?u CharCtrlJ ?y
     = (example_session\<lparr>content := [], cursor := 0, trace := [EErase]\<rparr>,
        Some (OutChan [120]))"
    unfolding a2 a3 by (simp add: example_session_simps)
  have b1': "ioloop_iter example_cfg 13 ?x
       = (example_session\<lparr>content := [], cursor := 0, trace := [EBufWrite [10]]\<rparr>,
          Some (OutChan [120]), True)"
    unfolding b1 n by (simp add: example_session_simps example_cfg_simps newline_def)
  have b2': "ioloop_iter example_cfg 10 ?x
       = (example_session\<lparr>content := [], cursor := 0, trace := [EBufWrite [10]]\<rparr>,
          Some (OutChan [120]), True)"
    unfolding b2 n by (simp add: example_session_simps example_cfg_simps newline_def)
  have c1': "\<exists>s'. Runes example_cfg (ioloop example_cfg [13]) ?x = Some (s', [120], None)"
    using c1 by simp
  have c2': "\<exists>s'. Runes example_cfg (ioloop example_cfg [10]) ?x = Some (s', [120], None)"
    using c2 by simp
  show ?thesis
    using a1' a3' f b1' b2' c1' c2' h(1) h(2) p h(3) h(4) d1 d2 e1 e2 by (intro conjI)
qed

section \<open>The end of the input stream\<close>

text \<open>
  C4. A zero rune from the transport, the end of its stream, is handled before the
  switch. With an empty buffer the loop erases the rendering, sends io.EOF and stops. With
  a non-empty buffer the rune counts as the Enter key, so the buffered text is sent as a
  completed line, and the end-of-input is delivered on the next iteration; the comment in
  the loop says the same. The code does this as long as nothing refills the buffer
  (lemma end_of_stream_iterations). The theorem runs the loop on an input where it does
  not: with a listener that sets the line after every key, the zero rune that follows the
  flush finds the buffer non-empty again and sends one more line and no io.EOF, while the
  same runes without a listener end with io.EOF and the stop of the loop.
\<close>

theorem C4_end_of_stream_refill:
  "snd (ioloop listener_cfg [97, 0] example_session) = Some (OutChan [120])
   \<and> Len (fst (ioloop listener_cfg [97, 0] example_session)) \<noteq> 0
   \<and> ioloop_iter listener_cfg 0 (fst (ioloop listener_cfg [97, 0] example_session))
       = ((fst (ioloop listener_cfg [97, 0] example_session))
            \<lparr>trace := trace (fst (ioloop listener_cfg [97, 0] example_session))
                        @ [EBufWrite [10], EOnChange [] 0 CharEnter]\<rparr>,
          Some (OutChan [120]), True)
   \<and> snd (ioloop listener_cfg [0] (fst (ioloop listener_cfg [97, 0] example_session)))
       = Some (OutChan [120])
   \<and> snd (ioloop example_cfg [97, 0] example_session) = Some (OutChan [97])
   \<and> ioloop_iter example_cfg 0 (fst (ioloop example_cfg [97, 0] example_session))
       = ((fst (ioloop example_cfg [97, 0] example_session))
            \<lparr>trace := trace (fst (ioloop example_cfg [97, 0] example_session)) @ [EErase]\<rparr>,
          Some (ErrChan EOF), False)
   \<and> snd (ioloop example_cfg [0] (fst (ioloop example_cfg [97, 0] example_session)))
       = Some (ErrChan EOF)"
proof -
  have p: "plain_key 97" by (simp add: plain_key_def special_keys_def key_defs)
  have fl: "\<And>r. filter_rune listener_cfg r = (r, True)"
    by (simp add: filter_none listener_cfg_simps)
  have fe: "\<And>r. filter_rune example_cfg r = (r, True)"
    by (simp add: filter_none example_cfg_simps)
  have ne: "\<And>r s. notify example_cfg r s = s"
    by (simp add: notify_none example_cfg_simps)
  have nz: "(97::int) \<noteq> 0" by simp
  let ?w = "WriteRune 97 example_session"
  have w: "content ?w = [97]" "cursor ?w = 1" "trace ?w = [EBufWrite [97]]"
    by (simp_all add: buf_defs example_session_simps)
  let ?l1 = "notify listener_cfg 97 ?w"
  have i1: "ioloop_iter listener_cfg 97 example_session = (?l1, None, True)"
    using ioloop_iter_key [OF fl nz, of example_session] p by (simp add: dispatch_plain)
  have c1: "content ?l1 = [120]" "Len ?l1 \<noteq> 0"
    by (simp_all add: notify_listener_cfg Len_def)
  let ?l2 = "notify listener_cfg CharEnter (fst (dispatch listener_cfg CharEnter ?l1))"
  have i2: "ioloop_iter listener_cfg 0 ?l1 = (?l2, Some (OutChan [120]), True)"
    using ioloop_iter_eof_flush [OF fl c1(2)] c1(1) by simp
  have c2: "content ?l2 = [120]" "Len ?l2 \<noteq> 0"
    by (simp_all add: notify_listener_cfg Len_def)
  have r1: "ioloop listener_cfg [97, 0] example_session = (?l2, Some (OutChan [120]))"
    using i1 i2 by simp
  have i3: "ioloop_iter listener_cfg 0 ?l2
      = (notify listener_cfg CharEnter (fst (dispatch listener_cfg CharEnter ?l2)),
         Some (OutChan [120]), True)"
    using ioloop_iter_eof_flush [OF fl c2(2)] c2(1) by simp
  have i3': "notify listener_cfg CharEnter (fst (dispatch listener_cfg CharEnter ?l2))
      = ?l2\<lparr>trace := trace ?l2 @ [EBufWrite [10], EOnChange [] 0 CharEnter]\<rparr>"
    by (simp add: notify_listener_cfg dispatch_enter listener_cfg_simps newline_def)
  have j1: "ioloop_iter example_cfg 97 example_session = (?w, None, True)"
    using p by (simp add: ioloop_iter_plain example_cfg_simps)
  have lw: "Len ?w \<noteq> 0" using w by (simp add: Len_def)
  let ?e2 = "fst (dispatch example_cfg CharEnter ?w)"
  have j2: "ioloop_iter example_cfg 0 ?w = (?e2, Some (OutChan [97]), True)"
    using ioloop_iter_eof_flush [OF fe lw] w by (simp add: ne)
  have le: "Len ?e2 = 0" by (simp add: dispatch_enter Len_def)
  have r2: "ioloop example_cfg [97, 0] example_session = (?e2, Some (OutChan [97]))"
    using j1 j2 by simp
  have j3: "ioloop_iter example_cfg 0 ?e2
      = (?e2\<lparr>trace := trace ?e2 @ [EErase]\<rparr>, Some (ErrChan EOF), False)"
    using ioloop_iter_eof_empty [OF fe le] by simp
  show ?thesis
    unfolding r1 r2 fst_conv snd_conv
    using c2 i3 i3' j3 by simp
qed

section \<open>The banner options\<close>

text \<open>
  C6. A banner option, InterruptPrompt or EOFPrompt, that is the empty string once the
  configuration is initialized suppresses its banner: on interrupt, and on end-of-input,
  the loop writes no banner text, only the newline (and nothing with UniqueEditLine on).
  The theorem states this for the case of the switch and for the iteration of the loop,
  for every configuration the loop may hold, and says when the option is empty after
  Config.Init: on an initialized Config when it is empty, on a first call when it is a
  single newline.
\<close>

theorem C6_banner_suppression:
  "(InterruptPrompt cfg = [] \<longrightarrow>
      trace (fst (dispatch cfg CharInterrupt s))
        = trace s @ [EErase, ERedraw] @ (if UniqueEditLine cfg then [] else [EBufWrite [newline]])
      \<and> (filter_rune cfg r0 = (CharInterrupt, True) \<longrightarrow>
           trace (fst (ioloop_iter cfg r0 s))
             = trace s @ [EErase, ERedraw]
               @ (if UniqueEditLine cfg then [] else [EBufWrite [newline]])
               @ (case Listener cfg of None \<Rightarrow> []
                  | Some l \<Rightarrow> [EOnChange [] 0 CharInterrupt])))
   \<and> (EOFPrompt cfg = [] \<and> Len s = 0 \<longrightarrow>
        trace (fst (dispatch cfg CharDelete s))
          = trace s @ (if UniqueEditLine cfg then [EErase] else [EBufWrite [newline]])
        \<and> (filter_rune cfg r0 = (CharDelete, True) \<longrightarrow>
             trace (fst (ioloop_iter cfg r0 s))
               = trace s @ (if UniqueEditLine cfg then [EErase] else [EBufWrite [newline]])
                 @ (case Listener cfg of None \<Rightarrow> []
                    | Some l \<Rightarrow> [EOnChange [] 0 CharDelete])))
   \<and> (InterruptPrompt (fst (Config_Init c)) = [])
        = (if inited c then InterruptPrompt c = [] else InterruptPrompt c = [newline])
   \<and> (EOFPrompt (fst (Config_Init c)) = [])
        = (if inited c then EOFPrompt c = [] else EOFPrompt c = [newline])"
proof (intro conjI impI)
  assume a: "InterruptPrompt cfg = []"
  then show "trace (fst (dispatch cfg CharInterrupt s))
        = trace s @ [EErase, ERedraw] @ (if UniqueEditLine cfg then [] else [EBufWrite [newline]])"
    by (simp add: dispatch_interrupt)
  assume f: "filter_rune cfg r0 = (CharInterrupt, True)"
  have nz: "CharInterrupt \<noteq> 0" by (simp add: CharInterrupt_def)
  show "trace (fst (ioloop_iter cfg r0 s))
             = trace s @ [EErase, ERedraw]
               @ (if UniqueEditLine cfg then [] else [EBufWrite [newline]])
               @ (case Listener cfg of None \<Rightarrow> []
                  | Some l \<Rightarrow> [EOnChange [] 0 CharInterrupt])"
    using a by (simp add: ioloop_iter_key [OF f nz] trace_notify dispatch_interrupt split: option.split)
next
  assume a: "EOFPrompt cfg = [] \<and> Len s = 0"
  then show "trace (fst (dispatch cfg CharDelete s))
          = trace s @ (if UniqueEditLine cfg then [EErase] else [EBufWrite [newline]])"
    by (simp add: dispatch_delete_empty)
  assume f: "filter_rune cfg r0 = (CharDelete, True)"
  have nz: "CharDelete \<noteq> 0" by (simp add: CharDelete_def)
  show "trace (fst (ioloop_iter cfg r0 s))
               = trace s @ (if UniqueEditLine cfg then [EErase] else [EBufWrite [newline]])
                 @ (case Listener cfg of None \<Rightarrow> []
                    | Some l \<Rightarrow> [EOnChange [] 0 CharDelete])"
    using a by (simp add: ioloop_iter_key [OF f nz] trace_notify dispatch_delete_empty split: option.split)
qed (rule Init_banner_empty)+

theorem C6_banner_suppression_witness:
  "InterruptPrompt (fst (Config_Init newline_banner_Config)) = []
   \<and> EOFPrompt (fst (Config_Init newline_banner_Config)) = []
   \<and> Len example_session = 0
   \<and> filter_rune (fst (Config_Init newline_banner_Config)) 3 = (CharInterrupt, True)
   \<and> filter_rune (fst (Config_Init newline_banner_Config)) 4 = (CharDelete, True)
   \<and> trace (fst (dispatch (fst (Config_Init newline_banner_Config)) CharInterrupt example_session))
       = [EErase, ERedraw, EBufWrite [10]]
   \<and> trace (fst (ioloop_iter (fst (Config_Init newline_banner_Config)) 3 example_session))
       = [EErase, ERedraw, EBufWrite [10]]
   \<and> trace (fst (dispatch (fst (Config_Init newline_banner_Config)) CharDelete example_session))
       = [EBufWrite [10]]
   \<and> trace (fst (ioloop_iter (fst (Config_Init newline_banner_Config)) 4 example_session))
       = [EBufWrite [10]]
   \<and> InterruptPrompt (example_cfg\<lparr>InterruptPrompt := []\<rparr>) = []
   \<and> inited (example_cfg\<lparr>InterruptPrompt := []\<rparr>)
   \<and> InterruptPrompt (fst (Config_Init (example_cfg\<lparr>InterruptPrompt := []\<rparr>))) = []
   \<and> trace (fst (dispatch (fst (Config_Init (example_cfg\<lparr>InterruptPrompt := []\<rparr>)))
        CharInterrupt example_session)) = [EErase, ERedraw, EBufWrite [10]]"
proof -
  let ?n = "fst (Config_Init newline_banner_Config)"
  let ?e = "example_cfg\<lparr>InterruptPrompt := []\<rparr>"
  have h: "\<not> inited newline_banner_Config" "InterruptPrompt newline_banner_Config = [newline]"
    "EOFPrompt newline_banner_Config = [newline]"
    by (simp_all add: newline_banner_Config_def New_Config_def newline_def)
  have u: "\<not> UniqueEditLine ?n" "Listener ?n = None" "FuncFilterInputRune ?n = None"
    by (simp_all add: newline_banner_Config_def New_Config_def Config_Init_def)
  have l: "Len example_session = 0" by (simp add: Len_def example_session_simps)
  have f: "filter_rune ?n 3 = (CharInterrupt, True)" "filter_rune ?n 4 = (CharDelete, True)"
    using u by (simp_all add: filter_none key_defs)
  have i: "inited ?e" by (simp add: example_cfg_def Config_Init_sets_inited)
  have ie: "fst (Config_Init ?e) = ?e" using i by (simp add: Config_Init_inited)
  have ue: "\<not> UniqueEditLine ?e" "InterruptPrompt ?e = []"
    by (simp_all add: example_cfg_simps)
  note t = C6_banner_suppression [where cfg = ?n and s = example_session and c = newline_banner_Config]
  have x1: "InterruptPrompt ?n = []"
    using t [where ?r0.0 = 3] h by simp
  have x2: "EOFPrompt ?n = []"
    using t [where ?r0.0 = 3] h by simp
  have y1: "trace (fst (dispatch ?n CharInterrupt example_session))
        = trace example_session @ [EErase, ERedraw] @ (if UniqueEditLine ?n then [] else [EBufWrite [newline]])"
    using t [where ?r0.0 = 3] x1 by blast
  have y2: "trace (fst (ioloop_iter ?n 3 example_session))
             = trace example_session @ [EErase, ERedraw]
               @ (if UniqueEditLine ?n then [] else [EBufWrite [newline]])
               @ (case Listener ?n of None \<Rightarrow> []
                  | Some l \<Rightarrow> [EOnChange [] 0 CharInterrupt])"
    using t [where ?r0.0 = 3] x1 f by blast
  have y3: "trace (fst (dispatch ?n CharDelete example_session))
          = trace example_session @ (if UniqueEditLine ?n then [EErase] else [EBufWrite [newline]])"
    using t [where ?r0.0 = 4] x2 l by blast
  have y4: "trace (fst (ioloop_iter ?n 4 example_session))
               = trace example_session @ (if UniqueEditLine ?n then [EErase] else [EBufWrite [newline]])
                 @ (case Listener ?n of None \<Rightarrow> []
                    | Some l \<Rightarrow> [EOnChange [] 0 CharDelete])"
    using t [where ?r0.0 = 4] x2 l f by blast
  note v = C6_banner_suppression [where cfg = ?e and s = example_session and c = ?e and ?r0.0 = 3]
  have z1: "InterruptPrompt (fst (Config_Init ?e)) = []"
    using v i ue by simp
  have z2: "trace (fst (dispatch ?e CharInterrupt example_session))
        = trace example_session @ [EErase, ERedraw] @ (if UniqueEditLine ?e then [] else [EBufWrite [newline]])"
    using v ue by blast
  have y1': "trace (fst (dispatch ?n CharInterrupt example_session)) = [EErase, ERedraw, EBufWrite [10]]"
    unfolding y1 using u by (simp add: example_session_simps newline_def)
  have y2': "trace (fst (ioloop_iter ?n 3 example_session)) = [EErase, ERedraw, EBufWrite [10]]"
    unfolding y2 using u by (simp add: example_session_simps newline_def)
  have y3': "trace (fst (dispatch ?n CharDelete example_session)) = [EBufWrite [10]]"
    unfolding y3 using u by (simp add: example_session_simps newline_def)
  have y4': "trace (fst (ioloop_iter ?n 4 example_session)) = [EBufWrite [10]]"
    unfolding y4 using u by (simp add: example_session_simps newline_def)
  have z2': "trace (fst (dispatch (fst (Config_Init ?e)) CharInterrupt example_session))
      = [EErase, ERedraw, EBufWrite [10]]"
    unfolding ie z2 using ue by (simp add: example_session_simps newline_def)
  show ?thesis
    using x1 x2 l f y1' y2' y3' y4' ue(2) i z1 z2' by (intro conjI)
qed

section \<open>Raw mode around a read\<close>

text \<open>
  C9. Every call of Operation.Runes enters raw mode first, and on every return, whether
  with a completed line, with io.EOF or with ErrInterrupt, the deferred ExitRawMode has
  run: the call never returns with the terminal in raw mode. The same holds for the calls
  that read through it: String and Slice (Readline and ReadSlice), and the password
  functions (ReadPassword, ReadPasswordEx, ReadPasswordWithConfig), which swap the
  configuration in, read with Slice, and swap it back after the read has left raw mode;
  a password call that returns has gone through Runes.
\<close>

theorem C9_raw_mode:
  "rawmode (Runes_enter cfg s)
   \<and> take (Suc (length (trace s))) (trace (Runes_enter cfg s)) = trace s @ [EEnterRawMode]
   \<and> (Runes cfg env s = Some (s', res) \<longrightarrow>
        \<not> rawmode s' \<and> last (trace s') = EExitRawMode)
   \<and> (env (Runes_enter cfg s) = (s1, Some m) \<longrightarrow>
        Runes cfg env s = Some (ExitRawMode s1, Runes_select m)
        \<and> \<not> rawmode (ExitRawMode s1))
   \<and> Runes_select (OutChan x) = (x, None)
   \<and> Runes_select (ErrChan EOF) = ([], Some EOF)
   \<and> Runes_select (ErrChan (InterruptError x)) = (x, Some ErrInterrupt)
   \<and> (String cfg env s = Some (s', str, err) \<longrightarrow>
        \<not> rawmode s' \<and> last (trace s') = EExitRawMode
        \<and> (\<exists>r. Runes cfg env s = Some (s', r, err) \<and> str = string_of_runes r))
   \<and> (Slice cfg env s = Some (s', b, err) \<longrightarrow>
        \<not> rawmode s' \<and> last (trace s') = EExitRawMode
        \<and> (\<exists>r e. Runes cfg env s = Some (s', r, e)))
   \<and> (PasswordWithConfig p env s = Inr (Some (s', b, err)) \<longrightarrow>
        \<not> rawmode s' \<and> last (trace s') = EExitRawMode
        \<and> (\<exists>s1 a s2 r e. EnterPasswordMode p s = Inr (s1, None) \<and> o_cfg s1 = Some a
              \<and> Runes (heap s1 a) env s1 = Some (s2, r, e)))
   \<and> (PasswordEx pr l env s = Inr (Some (s', b, err)) \<longrightarrow>
        \<not> rawmode s' \<and> last (trace s') = EExitRawMode)
   \<and> (Password pr env s = Inr (Some (s', b, err)) \<longrightarrow>
        \<not> rawmode s' \<and> last (trace s') = EExitRawMode)
   \<and> Instance_Readline cfg env s = String cfg env s
   \<and> Instance_ReadSlice cfg env s = Slice cfg env s
   \<and> Instance_ReadPassword pr env s = Password pr env s
   \<and> Instance_ReadPasswordEx pr l env s = PasswordEx pr l env s
   \<and> Instance_ReadPasswordWithConfig p env s = PasswordWithConfig p env s"
proof (intro conjI impI)
  assume a: "Runes cfg env s = Some (s', res)"
  show "\<not> rawmode s'" and "last (trace s') = EExitRawMode"
    using Runes_exits [OF a] by simp_all
next
  assume "env (Runes_enter cfg s) = (s1, Some m)"
  then show "Runes cfg env s = Some (ExitRawMode s1, Runes_select m)"
    by (rule Runes_returns)
next
  assume a: "String cfg env s = Some (s', str, err)"
  from String_SomeD [OF a]
  show r: "\<exists>r. Runes cfg env s = Some (s', r, err) \<and> str = string_of_runes r" .
  then obtain r where "Runes cfg env s = Some (s', r, err)" by blast
  from Runes_exits [OF this]
  show "\<not> rawmode s'" and "last (trace s') = EExitRawMode" by simp_all
next
  assume a: "Slice cfg env s = Some (s', b, err)"
  from Slice_SomeD [OF a]
  show r: "\<exists>r e. Runes cfg env s = Some (s', r, e)" .
  then obtain r e where "Runes cfg env s = Some (s', r, e)" by blast
  from Runes_exits [OF this]
  show "\<not> rawmode s'" and "last (trace s') = EExitRawMode" by simp_all
next
  assume a: "PasswordWithConfig p env s = Inr (Some (s', b, err))"
  show "\<not> rawmode s'" and "last (trace s') = EExitRawMode"
    using PasswordWithConfig_exits [OF a] by simp_all
  show "\<exists>s1 a s2 r e. EnterPasswordMode p s = Inr (s1, None) \<and> o_cfg s1 = Some a
              \<and> Runes (heap s1 a) env s1 = Some (s2, r, e)"
    using PasswordWithConfig_enters [OF a] .
next
  assume a: "PasswordEx pr l env s = Inr (Some (s', b, err))"
  show "\<not> rawmode s'" and "last (trace s') = EExitRawMode"
    using PasswordEx_exits [OF a] by simp_all
next
  assume a: "Password pr env s = Inr (Some (s', b, err))"
  show "\<not> rawmode s'" and "last (trace s') = EExitRawMode"
    using Password_exits [OF a] by simp_all
qed (simp_all add: Runes_enter_raw ExitRawMode_raw Runes_select_def Instance_Readline_def
      Instance_ReadSlice_def Instance_ReadPassword_def Instance_ReadPasswordEx_def
      Instance_ReadPasswordWithConfig_def)

theorem C9_raw_mode_witness:
  "(\<exists>s'. Runes example_cfg (ioloop example_cfg ([120] @ [CharEnter])) example_session
            = Some (s', [120], None) \<and> \<not> rawmode s' \<and> last (trace s') = EExitRawMode)
   \<and> (\<exists>s'. Runes example_cfg (ioloop example_cfg [CharDelete]) example_session
            = Some (s', [], Some EOF) \<and> \<not> rawmode s' \<and> last (trace s') = EExitRawMode)
   \<and> (\<exists>s'. Runes example_cfg (ioloop example_cfg ([120] @ [CharInterrupt])) example_session
            = Some (s', [120], Some ErrInterrupt) \<and> \<not> rawmode s' \<and> last (trace s') = EExitRawMode)
   \<and> (\<exists>s'. Instance_Readline example_cfg (ioloop example_cfg ([- 5, 55296] @ [CharEnter]))
              example_session
            = Some (s', [65533, 65533], None) \<and> \<not> rawmode s' \<and> last (trace s') = EExitRawMode)
   \<and> (\<exists>s'. Instance_ReadSlice example_cfg (ioloop example_cfg ([233] @ [CharEnter]))
              example_session
            = Some (s', [195, 169], None) \<and> \<not> rawmode s' \<and> last (trace s') = EExitRawMode)
   \<and> (\<exists>s'. Instance_ReadPasswordWithConfig (Some 1) (ioloop example_cfg ([112] @ [CharEnter]))
              example_session
            = Inr (Some (s', [112], None)) \<and> \<not> rawmode s' \<and> last (trace s') = EExitRawMode)
   \<and> (\<exists>s'. Instance_ReadPassword [] (ioloop example_cfg ([112] @ [CharEnter])) example_session
            = Inr (Some (s', [112], None)) \<and> \<not> rawmode s' \<and> last (trace s') = EExitRawMode)"
proof -
  have h: "Listener example_cfg = None" "FuncFilterInputRune example_cfg = None"
    "content example_session = []" "cursor example_session = 0"
    by (simp_all add: example_cfg_simps example_session_simps)
  have p: "list_all plain_key [120]" "list_all plain_key [- 5, 55296]"
    "list_all plain_key [233]" "list_all plain_key [112]"
    by (simp_all add: plain_key_def special_keys_def key_defs)
  have r1: "\<exists>s'. Runes example_cfg (ioloop example_cfg ([120] @ [CharEnter])) example_session
      = Some (s', [120], None)"
    using Runes_typed_enter [OF h(1) h(2) p(1) h(3) h(4)] by blast
  have r2: "\<exists>s'. Runes example_cfg (ioloop example_cfg [CharDelete]) example_session
      = Some (s', [], Some EOF)"
  proof -
    have f: "filter_rune example_cfg CharDelete = (CharDelete, True)"
      by (simp add: filter_none h)
    have "Len example_session = 0" by (simp add: Len_def h)
    then have l0: "Len (Runes_enter example_cfg example_session) = 0"
      by (simp add: Len_Runes_enter)
    have "snd (ioloop example_cfg [CharDelete] (Runes_enter example_cfg example_session))
        = Some (ErrChan EOF)"
      by (simp add: ioloop_iter_delete_empty [OF f l0])
    from Runes_of_send [where env = "ioloop example_cfg [CharDelete]" and cfg = example_cfg
        and s = example_session, OF this]
    show ?thesis by (simp add: Runes_select_def)
  qed
  have r3: "\<exists>s'. Runes example_cfg (ioloop example_cfg ([120] @ [CharInterrupt])) example_session
      = Some (s', [120], Some ErrInterrupt)"
    using Runes_typed_interrupt [OF h(1) h(2) p(1) h(3) h(4)] by blast
  have r4: "\<exists>s'. String example_cfg (ioloop example_cfg ([- 5, 55296] @ [CharEnter])) example_session
      = Some (s', [65533, 65533], None)"
    using Runes_typed_enter [OF h(1) h(2) p(2) h(3) h(4), of example_cfg]
    by (simp add: String_def string_of_runes_def valid_rune_def)
  have r5: "\<exists>s'. Slice example_cfg (ioloop example_cfg ([233] @ [CharEnter])) example_session
      = Some (s', [195, 169], None)"
    using Runes_typed_enter [OF h(1) h(2) p(3) h(3) h(4), of example_cfg]
    by (simp add: Slice_def string_of_runes_def valid_rune_def bytes_of_string_def utf8_encode_def)
  have r6: "\<exists>s'. PasswordWithConfig (Some 1) (ioloop example_cfg ([112] @ [CharEnter]))
      example_session = Inr (Some (s', [112], None))"
  proof -
    have o: "o_cfg example_session = Some 1" by (simp add: example_session_def)
    have "\<exists>s'. PasswordWithConfig (Some 1) (ioloop example_cfg ([112] @ [CharEnter]))
        example_session = Inr (Some (s', bytes_of_string (string_of_runes [112]), None))"
      using PasswordWithConfig_returns [OF EnterPasswordMode_same [OF o], of 1 1 example_cfg "[112]"]
        h p o by simp
    then show ?thesis
      by (simp add: string_of_runes_def valid_rune_def bytes_of_string_def utf8_encode_def)
  qed
  have r7: "\<exists>s'. Password [] (ioloop example_cfg ([112] @ [CharEnter])) example_session
      = Inr (Some (s', [112], None))"
  proof -
    let ?sB = "fst (GenPasswordConfig example_session)
        \<lparr>heap := (heap (fst (GenPasswordConfig example_session)))
           (2 := (heap (fst (GenPasswordConfig example_session)) 2)
              \<lparr>Prompt := [], Listener := None\<rparr>)\<rparr>"
    have g: "snd (GenPasswordConfig example_session) = 2"
      by (simp add: GenPasswordConfig_def PasswordConfig_def example_session_def)
    have b: "o_cfg ?sB \<noteq> Some 2" "o_cfg ?sB = Some 1" "content ?sB = []" "cursor ?sB = 0"
      by (simp_all add: GenPasswordConfig_def PasswordConfig_def example_session_def)
    obtain s1 where e: "EnterPasswordMode (Some 2) ?sB = Inr (s1, None)"
      and s1: "o_cfg s1 = Some 2" "backupCfg s1 = o_cfg ?sB" "content s1 = content ?sB"
        "cursor s1 = cursor ?sB"
      using EnterPasswordMode_fresh [OF b(1)] by blast
    have "\<exists>s'. PasswordWithConfig (Some 2) (ioloop example_cfg ([112] @ [CharEnter])) ?sB
        = Inr (Some (s', bytes_of_string (string_of_runes [112]), None))"
      using PasswordWithConfig_returns [OF e s1(1), of 1 example_cfg "[112]"] s1 b h p by simp
    then have "\<exists>s'. PasswordWithConfig (Some 2) (ioloop example_cfg ([112] @ [CharEnter])) ?sB
        = Inr (Some (s', [112], None))"
      by (simp add: string_of_runes_def valid_rune_def bytes_of_string_def utf8_encode_def)
    then show ?thesis
      using g by (simp add: Password_def PasswordEx_def case_prod_beta)
  qed
  note t = C9_raw_mode [where cfg = example_cfg and s = example_session]
  have w1: "\<exists>s'. Runes example_cfg (ioloop example_cfg ([120] @ [CharEnter])) example_session
            = Some (s', [120], None) \<and> \<not> rawmode s' \<and> last (trace s') = EExitRawMode"
    using r1 t [where env = "ioloop example_cfg ([120] @ [CharEnter])"] by blast
  have w2: "\<exists>s'. Runes example_cfg (ioloop example_cfg [CharDelete]) example_session
            = Some (s', [], Some EOF) \<and> \<not> rawmode s' \<and> last (trace s') = EExitRawMode"
    using r2 t [where env = "ioloop example_cfg [CharDelete]"] by blast
  have w3: "\<exists>s'. Runes example_cfg (ioloop example_cfg ([120] @ [CharInterrupt])) example_session
            = Some (s', [120], Some ErrInterrupt) \<and> \<not> rawmode s' \<and> last (trace s') = EExitRawMode"
    using r3 t [where env = "ioloop example_cfg ([120] @ [CharInterrupt])"] by blast
  have w4: "\<exists>s'. Instance_Readline example_cfg (ioloop example_cfg ([- 5, 55296] @ [CharEnter]))
              example_session
            = Some (s', [65533, 65533], None) \<and> \<not> rawmode s' \<and> last (trace s') = EExitRawMode"
  proof -
    from r4 obtain s' where x: "String example_cfg
        (ioloop example_cfg ([- 5, 55296] @ [CharEnter])) example_session
        = Some (s', [65533, 65533], None)" by blast
    note u = t [where env = "ioloop example_cfg ([- 5, 55296] @ [CharEnter])" and s' = s'
        and str = "[65533, 65533]" and err = None]
    have "\<not> rawmode s' \<and> last (trace s') = EExitRawMode" using u x by blast
    moreover have "Instance_Readline example_cfg
        (ioloop example_cfg ([- 5, 55296] @ [CharEnter])) example_session
        = Some (s', [65533, 65533], None)" using u x by simp
    ultimately show ?thesis by blast
  qed
  have w5: "\<exists>s'. Instance_ReadSlice example_cfg (ioloop example_cfg ([233] @ [CharEnter]))
              example_session
            = Some (s', [195, 169], None) \<and> \<not> rawmode s' \<and> last (trace s') = EExitRawMode"
  proof -
    from r5 obtain s' where x: "Slice example_cfg
        (ioloop example_cfg ([233] @ [CharEnter])) example_session
        = Some (s', [195, 169], None)" by blast
    note u = t [where env = "ioloop example_cfg ([233] @ [CharEnter])" and s' = s'
        and b = "[195, 169]" and err = None]
    have "\<not> rawmode s' \<and> last (trace s') = EExitRawMode" using u x by blast
    moreover have "Instance_ReadSlice example_cfg
        (ioloop example_cfg ([233] @ [CharEnter])) example_session
        = Some (s', [195, 169], None)" using u x by simp
    ultimately show ?thesis by blast
  qed
  have w6: "\<exists>s'. Instance_ReadPasswordWithConfig (Some 1)
              (ioloop example_cfg ([112] @ [CharEnter])) example_session
            = Inr (Some (s', [112], None)) \<and> \<not> rawmode s' \<and> last (trace s') = EExitRawMode"
  proof -
    from r6 obtain s' where x: "PasswordWithConfig (Some 1)
        (ioloop example_cfg ([112] @ [CharEnter])) example_session
        = Inr (Some (s', [112], None))" by blast
    note u = t [where env = "ioloop example_cfg ([112] @ [CharEnter])" and s' = s'
        and b = "[112]" and err = None and p = "Some 1"]
    have "\<not> rawmode s' \<and> last (trace s') = EExitRawMode" using u x by blast
    moreover have "Instance_ReadPasswordWithConfig (Some 1)
        (ioloop example_cfg ([112] @ [CharEnter])) example_session
        = Inr (Some (s', [112], None))" using u x by simp
    ultimately show ?thesis by blast
  qed
  have w7: "\<exists>s'. Instance_ReadPassword [] (ioloop example_cfg ([112] @ [CharEnter]))
              example_session
            = Inr (Some (s', [112], None)) \<and> \<not> rawmode s' \<and> last (trace s') = EExitRawMode"
  proof -
    from r7 obtain s' where x: "Password []
        (ioloop example_cfg ([112] @ [CharEnter])) example_session
        = Inr (Some (s', [112], None))" by blast
    note u = t [where env = "ioloop example_cfg ([112] @ [CharEnter])" and s' = s'
        and b = "[112]" and err = None and pr = "[]"]
    have "\<not> rawmode s' \<and> last (trace s') = EExitRawMode" using u x by blast
    moreover have "Instance_ReadPassword []
        (ioloop example_cfg ([112] @ [CharEnter])) example_session
        = Inr (Some (s', [112], None))" using u x by simp
    ultimately show ?thesis by blast
  qed
  show ?thesis using w1 w2 w3 w4 w5 w6 w7 by (intro conjI)
qed

end
